theory Spec2Isabelle
  imports Complex_Main
begin

text \<open>
  The Smart Apply pipeline of the extension: the classifier of code blocks
  (\<^verbatim>\<open>IntentDetector\<close>), the resolver of anchors (\<^verbatim>\<open>SymbolResolver\<close>), the store of
  pending changes (\<^verbatim>\<open>DiffPreviewService\<close>) and the orchestrator (\<^verbatim>\<open>SmartApplyService\<close>),
  each function translated from its TypeScript source, and the properties of them that
  the specification claims.
\<close>

section \<open>Strings\<close>

text \<open>
  A JavaScript string is modelled as a \<^typ>\<open>string\<close>: a list of code units, each below 256
  (the Latin-1 range). Case mapping, white space and word characters are the ones
  ECMAScript defines on that range.
\<close>

abbreviation NL :: char where
  "NL \<equiv> CHR 0x0A"

text \<open>\<^verbatim>\<open>s.split("\n")\<close>: never empty; the empty string gives one empty line.\<close>

fun split_nl :: "string \<Rightarrow> string list" where
  "split_nl [] = [[]]"
| "split_nl (c # cs) =
     (if c = NL then [] # split_nl cs
      else (case split_nl cs of
              [] \<Rightarrow> [[c]]
            | l # ls \<Rightarrow> (c # l) # ls))"

text \<open>\<^verbatim>\<open>ls.join("\n")\<close>.\<close>

fun join_nl :: "string list \<Rightarrow> string" where
  "join_nl [] = []"
| "join_nl [l] = l"
| "join_nl (l # m # ls) = l @ NL # join_nl (m # ls)"

text \<open>White space and line terminators (\<^verbatim>\<open>\s\<close>, and what \<^verbatim>\<open>trim\<close> strips).\<close>

definition isSpace :: "char \<Rightarrow> bool" where
  "isSpace c = ((of_char c :: nat) \<in> {9, 10, 11, 12, 13, 32, 160})"

text \<open>\<^verbatim>\<open>\w\<close>: a letter of the basic alphabet, a digit or the underscore.\<close>

definition isWord :: "char \<Rightarrow> bool" where
  "isWord c =
     (let n = of_char c :: nat in
      (65 \<le> n \<and> n \<le> 90) \<or> (97 \<le> n \<and> n \<le> 122) \<or> (48 \<le> n \<and> n \<le> 57) \<or> n = 95)"

definition isDigit :: "char \<Rightarrow> bool" where
  "isDigit c = (let n = of_char c :: nat in 48 \<le> n \<and> n \<le> 57)"

definition isLineTerminator :: "char \<Rightarrow> bool" where
  "isLineTerminator c = ((of_char c :: nat) \<in> {10, 13})"

text \<open>\<^verbatim>\<open>toLowerCase\<close> on one code unit: the capital letters of the range move by 32.\<close>

definition lowerChar :: "char \<Rightarrow> char" where
  "lowerChar c =
     (let n = of_char c :: nat in
      if (65 \<le> n \<and> n \<le> 90) \<or> (192 \<le> n \<and> n \<le> 222 \<and> n \<noteq> 215)
      then char_of (n + 32) else c)"

definition toLowerCase :: "string \<Rightarrow> string" where
  "toLowerCase s = map lowerChar s"

definition trimStart :: "string \<Rightarrow> string" where
  "trimStart s = dropWhile isSpace s"

definition trim :: "string \<Rightarrow> string" where
  "trim s = rev (dropWhile isSpace (rev (dropWhile isSpace s)))"

text \<open>\<^verbatim>\<open>s.startsWith(p)\<close>, \<^verbatim>\<open>s.indexOf(p)\<close> (\<open>None\<close> for -1) and \<^verbatim>\<open>s.includes(p)\<close>.\<close>

fun startsWith :: "string \<Rightarrow> string \<Rightarrow> bool" where
  "startsWith s [] = True"
| "startsWith [] (p # ps) = False"
| "startsWith (c # cs) (p # ps) = (c = p \<and> startsWith cs ps)"

fun indexOfFrom :: "string \<Rightarrow> string \<Rightarrow> nat \<Rightarrow> nat option" where
  "indexOfFrom [] p i = (if p = [] then Some i else None)"
| "indexOfFrom (c # cs) p i =
     (if startsWith (c # cs) p then Some i else indexOfFrom cs p (Suc i))"

definition indexOf :: "string \<Rightarrow> string \<Rightarrow> nat option" where
  "indexOf s p = indexOfFrom s p 0"

definition str_includes :: "string \<Rightarrow> string \<Rightarrow> bool" where
  "str_includes s p = (indexOf s p \<noteq> None)"

section \<open>Regular expressions\<close>

text \<open>
  The regular expressions of the source, as syntax trees, with the backtracking matcher
  of ECMAScript: alternatives in order, greedy quantifiers, numbered capture groups.
\<close>

datatype cclass =
    Lit char        \<comment> \<open>a character\<close>
  | LitI char       \<comment> \<open>a character under the \<^verbatim>\<open>i\<close> flag\<close>
  | Space           \<comment> \<open>\<^verbatim>\<open>\s\<close>\<close>
  | NotSpace        \<comment> \<open>\<^verbatim>\<open>[^\s]\<close>\<close>
  | Word            \<comment> \<open>\<^verbatim>\<open>\w\<close>\<close>
  | Digit           \<comment> \<open>\<^verbatim>\<open>\d\<close>\<close>
  | Dot             \<comment> \<open>\<^verbatim>\<open>.\<close>\<close>
  | OneOf string    \<comment> \<open>\<^verbatim>\<open>[...]\<close>\<close>

fun inClass :: "cclass \<Rightarrow> char \<Rightarrow> bool" where
  "inClass (Lit a) c = (c = a)"
| "inClass (LitI a) c = (lowerChar c = lowerChar a)"
| "inClass Space c = isSpace c"
| "inClass NotSpace c = (\<not> isSpace c)"
| "inClass Word c = isWord c"
| "inClass Digit c = isDigit c"
| "inClass Dot c = (\<not> isLineTerminator c)"
| "inClass (OneOf cs) c = (c \<in> set cs)"

datatype rx =
    Eps
  | Ch cclass
  | Seq rx rx
  | Alt rx rx
  | Star rx           \<comment> \<open>\<^verbatim>\<open>r*\<close>\<close>
  | Opt rx            \<comment> \<open>\<^verbatim>\<open>r?\<close>\<close>
  | Group nat rx      \<comment> \<open>the capture group of that number\<close>
  | Bol               \<comment> \<open>\<^verbatim>\<open>^\<close>\<close>
  | BolM              \<comment> \<open>\<^verbatim>\<open>^\<close> under the \<^verbatim>\<open>m\<close> flag\<close>
  | Eol               \<comment> \<open>\<^verbatim>\<open>$\<close>\<close>

text \<open>
  A matcher state: the character before the current position (none at the start of the
  input), the rest of the input, and the captures so far.
\<close>

type_synonym mstate = "char option \<times> string \<times> (nat \<times> string) list"

text \<open>
  All the ways \<open>r\<close> matches at a state, in the order backtracking tries them. A
  quantifier does not repeat an iteration that consumed nothing.
\<close>

function matches :: "rx \<Rightarrow> mstate \<Rightarrow> mstate list" where
  "matches Eps s = [s]"
| "matches (Ch k) (prev, cs, caps) =
     (case cs of
        [] \<Rightarrow> []
      | c # cs' \<Rightarrow> if inClass k c then [(Some c, cs', caps)] else [])"
| "matches (Seq a b) s = concat (map (matches b) (matches a s))"
| "matches (Alt a b) s = matches a s @ matches b s"
| "matches (Star r) (prev, cs, caps) =
     concat (map (\<lambda>s'. if length (fst (snd s')) < length cs then matches (Star r) s' else [])
                 (matches r (prev, cs, caps)))
     @ [(prev, cs, caps)]"
| "matches (Opt r) (prev, cs, caps) =
     filter (\<lambda>s'. length (fst (snd s')) < length cs) (matches r (prev, cs, caps))
     @ [(prev, cs, caps)]"
| "matches (Group n r) (prev, cs, caps) =
     map (\<lambda>(prev', cs', caps').
            (prev', cs', (n, take (length cs - length cs') cs) # caps'))
         (matches r (prev, cs, caps))"
| "matches Bol (prev, cs, caps) = (if prev = None then [(prev, cs, caps)] else [])"
| "matches BolM (prev, cs, caps) =
     (case prev of
        None \<Rightarrow> [(prev, cs, caps)]
      | Some c \<Rightarrow> if isLineTerminator c then [(prev, cs, caps)] else [])"
| "matches Eol (prev, cs, caps) = (if cs = [] then [(prev, cs, caps)] else [])"
  by pat_completeness auto
termination
  by (relation "measure size <*lex*> measure (\<lambda>s. length (fst (snd s)))") auto

text \<open>
  \<^verbatim>\<open>s.match(r)\<close> for a regular expression without the \<^verbatim>\<open>g\<close> flag: the first start
  index with a match, and there the match backtracking finds first.
\<close>

fun execFrom :: "rx \<Rightarrow> char option \<Rightarrow> string \<Rightarrow> nat \<Rightarrow> (nat \<times> mstate) option" where
  "execFrom r prev [] i =
     (case matches r (prev, [], []) of [] \<Rightarrow> None | m # _ \<Rightarrow> Some (i, m))"
| "execFrom r prev (c # cs) i =
     (case matches r (prev, c # cs, []) of
        [] \<Rightarrow> execFrom r (Some c) cs (Suc i)
      | m # _ \<Rightarrow> Some (i, m))"

definition exec :: "rx \<Rightarrow> string \<Rightarrow> (nat \<times> mstate) option" where
  "exec r s = execFrom r None s 0"

definition test :: "rx \<Rightarrow> string \<Rightarrow> bool" where
  "test r s = (exec r s \<noteq> None)"

text \<open>
  \<^verbatim>\<open>match[n]\<close> of a match that is not \<^verbatim>\<open>null\<close>: the last capture of group \<open>n\<close>,
  \<open>None\<close> for \<^verbatim>\<open>undefined\<close>.
\<close>

definition group :: "(nat \<times> mstate) option \<Rightarrow> nat \<Rightarrow> string option" where
  "group match n =
     (case match of
        None \<Rightarrow> None
      | Some (i, prev, cs, caps) \<Rightarrow> map_of caps n)"

text \<open>Shorthands to write the expressions as the source does.\<close>

definition Plus :: "rx \<Rightarrow> rx" where
  "Plus r = Seq r (Star r)"

fun seqs :: "rx list \<Rightarrow> rx" where
  "seqs [] = Eps"
| "seqs [r] = r"
| "seqs (r # rs) = Seq r (seqs rs)"

fun alts :: "rx list \<Rightarrow> rx" where
  "alts [] = Eps"
| "alts [r] = r"
| "alts (r # rs) = Alt r (alts rs)"

definition str :: "string \<Rightarrow> rx" where
  "str s = seqs (map (\<lambda>c. Ch (Lit c)) s)"

definition stri :: "string \<Rightarrow> rx" where
  "stri s = seqs (map (\<lambda>c. Ch (LitI c)) s)"

definition words :: "string list \<Rightarrow> rx" where
  "words ws = alts (map str ws)"

definition wordsi :: "string list \<Rightarrow> rx" where
  "wordsi ws = alts (map stri ws)"

section \<open>Positions and ranges\<close>

record position =
  line :: nat
  character :: nat

record vrange =
  start :: position
  end_pos :: position

section \<open>DiffPreviewService: the proposed content\<close>

text \<open>
  What a \<^verbatim>\<open>catch\<close> can receive: the \<^verbatim>\<open>TypeError\<close> of reading a property of
  \<^verbatim>\<open>undefined\<close>, with the name of the property, or a failure of a host call, with its
  text.
\<close>

datatype exn = TypeError string | HostError string

text \<open>
  \<^verbatim>\<open>generateProposedContent(originalText, position, newCode, range?)\<close>.
  \<^verbatim>\<open>lines[i].substring(..)\<close> with \<^verbatim>\<open>i\<close> past the last line reads \<^verbatim>\<open>undefined\<close>
  and throws; \<^verbatim>\<open>substring\<close> clamps its arguments to the string, as \<^const>\<open>take\<close> and
  \<^const>\<open>drop\<close> do.
\<close>

definition generateProposedContent ::
  "string \<Rightarrow> position \<Rightarrow> string \<Rightarrow> vrange option \<Rightarrow> exn + string" where
  "generateProposedContent originalText pos newCode rng =
     (let lines = split_nl originalText in
      case rng of
        Some r \<Rightarrow>
          (let beforeLines = take (line (start r)) lines;
               afterLines = drop (line (end_pos r) + 1) lines in
           if line (start r) \<ge> length lines then Inl (TypeError ''substring'')
           else if line (end_pos r) \<ge> length lines then Inl (TypeError ''substring'')
           else
             (let startLinePrefix = take (character (start r)) (lines ! line (start r));
                  endLineSuffix = drop (character (end_pos r)) (lines ! line (end_pos r));
                  newLines = split_nl newCode in
              if length newLines = 1 then
                Inr (join_nl (beforeLines @ [startLinePrefix @ newCode @ endLineSuffix] @ afterLines))
              else
                (let newLines1 = newLines[0 := startLinePrefix @ newLines ! 0];
                     newLines2 = newLines1[length newLines1 - 1 :=
                                   newLines1 ! (length newLines1 - 1) @ endLineSuffix] in
                 Inr (join_nl (beforeLines @ newLines2 @ afterLines)))))
      | None \<Rightarrow>
          (if line pos \<ge> length lines then Inr (originalText @ [NL] @ newCode)
           else
             (let currentLine = lines ! line pos;
                  beforeChar = take (character pos) currentLine;
                  afterChar = drop (character pos) currentLine in
              Inr (join_nl (lines[line pos := beforeChar @ newCode @ afterChar])))))"

text \<open>
  To state the round trip the specification asks of an insertion: \<open>offsetAt\<close> is the
  offset of a position that lies in the text, and \<open>removeAt\<close> is the deletion the
  specification speaks of, \<open>n\<close> characters at a position, on the line the position names.
\<close>

definition offsetAt :: "string \<Rightarrow> position \<Rightarrow> nat" where
  "offsetAt text pos =
     length (join_nl (take (line pos) (split_nl text) @ [[]])) + character pos"

definition removeAt :: "string \<Rightarrow> position \<Rightarrow> nat \<Rightarrow> string" where
  "removeAt text pos n =
     (let lines = split_nl text in
      if line pos \<ge> length lines then text
      else join_nl (lines[line pos :=
             take (character pos) (lines ! line pos) @
             drop (character pos + n) (lines ! line pos)]))"

section \<open>IntentDetector\<close>

datatype intent = Create | Edit | Command

text \<open>
  A confidence is one of the decimal literals of the source. They are modelled as
  rationals: the literals and the thresholds they are compared with are distinct decimals,
  and rounding each to a double keeps their order.
\<close>

record DetectedIntent =
  intent :: intent
  confidence :: rat
  target :: "string option"
  anchor :: "string option"

definition getLineCount :: "string \<Rightarrow> nat" where
  "getLineCount code = length (split_nl code)"

text \<open>\<^verbatim>\<open>[^\s]+\.\w+\<close>, the path of a file header, as capture group 1.\<close>

definition pathGroup :: rx where
  "pathGroup = Group 1 (seqs [Plus (Ch NotSpace), Ch (Lit CHR ''.''), Plus (Ch Word)])"

text \<open>\<^verbatim>\<open>r{1,3}\<close>.\<close>

definition rep1to3 :: "rx \<Rightarrow> rx" where
  "rep1to3 r = Seq r (Opt (Seq r (Opt r)))"

subsection \<open>detectCommand\<close>

definition shellPromptRegex :: rx where
  "shellPromptRegex =
     seqs [Bol, Ch (OneOf ''$>%''), Plus (Ch Space), Group 1 (Plus (Ch Dot)), Eol]"

definition npmRegex :: rx where
  "npmRegex =
     seqs [Bol, Group 1 (wordsi [''npm'', ''yarn'', ''pnpm'', ''npx'']), Plus (Ch Space),
           Group 2 (wordsi [''install'', ''run'', ''start'', ''test'', ''build'', ''dev'',
                            ''init'', ''create''])]"

definition pythonRegex :: rx where
  "pythonRegex =
     seqs [Bol, Group 1 (wordsi [''pip'', ''pip3'', ''python'', ''python3'']), Plus (Ch Space),
           Group 2 (wordsi [''install'', ''run'', ''-m''])]"

definition cargoRegex :: rx where
  "cargoRegex =
     seqs [Bol, stri ''cargo'', Plus (Ch Space),
           Group 1 (wordsi [''build'', ''run'', ''test'', ''new'', ''init'', ''add''])]"

definition goRegex :: rx where
  "goRegex =
     seqs [Bol, stri ''go'', Plus (Ch Space),
           Group 1 (wordsi [''run'', ''build'', ''test'', ''mod'', ''get''])]"

definition gitRegex :: rx where
  "gitRegex =
     seqs [Bol, stri ''git'', Plus (Ch Space),
           Group 1 (wordsi [''clone'', ''pull'', ''push'', ''commit'', ''checkout'', ''branch'',
                            ''merge'', ''rebase'', ''stash'', ''add'', ''status'', ''diff''])]"

definition dockerRegex :: rx where
  "dockerRegex =
     seqs [Bol, stri ''docker'', Opt (Group 1 (stri ''-compose'')), Plus (Ch Space),
           Group 2 (wordsi [''run'', ''build'', ''pull'', ''push'', ''up'', ''down'', ''exec'',
                            ''ps'', ''logs''])]"

definition kubectlRegex :: rx where
  "kubectlRegex =
     seqs [Bol, stri ''kubectl'', Plus (Ch Space),
           Group 1 (wordsi [''apply'', ''get'', ''describe'', ''logs'', ''exec'', ''delete'',
                            ''create''])]"

definition cliToolsRegex :: rx where
  "cliToolsRegex =
     seqs [Bol,
           Group 1 (wordsi [''curl'', ''wget'', ''ssh'', ''scp'', ''rsync'', ''chmod'', ''chown'',
                            ''mkdir'', ''rm'', ''cp'', ''mv'', ''cat'', ''grep'', ''find'', ''awk'',
                            ''sed'', ''head'', ''tail'']),
           Plus (Ch Space)]"

definition commandWith :: "rat \<Rightarrow> DetectedIntent" where
  "commandWith c = \<lparr>intent = Command, confidence = c, target = None, anchor = None\<rparr>"

definition detectCommand :: "string \<Rightarrow> DetectedIntent" where
  "detectCommand code =
     (let trimmed = trim code;
          lines = split_nl trimmed;
          firstLine = trim (hd lines) in
      if test shellPromptRegex firstLine then commandWith 0.95
      else if test npmRegex firstLine then commandWith 0.9
      else if test pythonRegex firstLine then commandWith 0.9
      else if test cargoRegex firstLine then commandWith 0.9
      else if test goRegex firstLine then commandWith 0.9
      else if test gitRegex firstLine then commandWith 0.9
      else if test dockerRegex firstLine then commandWith 0.9
      else if test kubectlRegex firstLine then commandWith 0.9
      else if test cliToolsRegex firstLine then commandWith 0.85
      else if length lines = 1 \<and>
              \<not> str_includes firstLine ''{'' \<and>
              \<not> str_includes firstLine ''function'' \<and>
              \<not> str_includes firstLine ''class'' \<and>
              \<not> str_includes firstLine ''def '' \<and>
              \<not> str_includes firstLine ''import '' \<and>
              \<not> str_includes firstLine ''const '' \<and>
              \<not> str_includes firstLine ''let '' \<and>
              \<not> str_includes firstLine ''var ''
           then commandWith 0.4
      else commandWith 0)"

subsection \<open>detectFileCreation\<close>

definition fileCommentPatterns :: "rx list" where
  "fileCommentPatterns =
     [seqs [Bol, str ''//'', Star (Ch Space), pathGroup, Star (Ch Space), Eol],
      seqs [Bol, str ''#'', Star (Ch Space), pathGroup, Star (Ch Space), Eol],
      seqs [Bol, str ''/*'', Star (Ch Space), pathGroup, Star (Ch Space), str ''*/'',
            Star (Ch Space), Eol],
      seqs [Bol, str ''<!--'', Star (Ch Space), pathGroup, Star (Ch Space), str ''-->'',
            Star (Ch Space), Eol],
      seqs [Bol, str [CHR 0x22, CHR 0x22, CHR 0x22], Star (Ch Space), pathGroup,
            Star (Ch Space), str [CHR 0x22, CHR 0x22, CHR 0x22], Star (Ch Space), Eol]]"

definition markdownHeaderRegex :: rx where
  "markdownHeaderRegex =
     seqs [Bol, rep1to3 (Ch (Lit CHR ''#'')), Plus (Ch Space), pathGroup, Star (Ch Space), Eol]"

definition langPathRegex :: rx where
  "langPathRegex = seqs [Ch (Lit CHR '':''), pathGroup, Eol]"

definition hasImportsRegex :: rx where
  "hasImportsRegex =
     seqs [Bol,
           Group 1 (alts [Seq (str ''import'') (Ch Space), Seq (str ''from'') (Ch Space),
                          str ''require('', Seq (str ''use'') (Ch Space),
                          Seq (str ''using'') (Ch Space)])]"

definition hasExportsRegex :: rx where
  "hasExportsRegex =
     Group 1 (Alt (seqs [str ''export'', Plus (Ch Space),
                         Opt (Group 2 (Seq (str ''default'') (Plus (Ch Space))))])
                  (seqs [str ''module.exports'', Star (Ch Space), Ch (Lit CHR ''='')]))"

definition hasClassOrFunctionRegex :: rx where
  "hasClassOrFunctionRegex =
     seqs [Group 1 (Alt Bol (Ch (Lit NL))),
           Group 2 (alts [seqs [str ''class'', Plus (Ch Space), Plus (Ch Word)],
                          seqs [str ''function'', Plus (Ch Space), Plus (Ch Word)],
                          seqs [str ''def'', Plus (Ch Space), Plus (Ch Word)],
                          seqs [str ''fn'', Plus (Ch Space), Plus (Ch Word)],
                          seqs [str ''func'', Plus (Ch Space), Plus (Ch Word)]])]"

definition configPatterns :: "rx list" where
  "configPatterns =
     [seqs [Bol, str ''{'', Star (Ch Space), str ([CHR 0x22] @ ''name'' @ [CHR 0x22]),
            Star (Ch Space), str '':''],
      seqs [Bol, str ''{'', Star (Ch Space), str ([CHR 0x22] @ ''compilerOptions'' @ [CHR 0x22]),
            Star (Ch Space), str '':''],
      seqs [Bol, str ''[tool.''],
      seqs [Bol, str ''version'', Star (Ch Space), str ''=''],
      seqs [Bol, str ''FROM'', Plus (Ch Space)],
      seqs [Bol, str ''version:'', Star (Ch Space), Opt (Ch (OneOf [CHR 0x27, CHR 0x22])),
            Ch Digit]]"

text \<open>The first expression of a list that matches, with its match.\<close>

fun firstMatch :: "rx list \<Rightarrow> string \<Rightarrow> (nat \<times> mstate) option" where
  "firstMatch [] s = None"
| "firstMatch (r # rs) s =
     (case exec r s of
        Some m \<Rightarrow> Some m
      | None \<Rightarrow> firstMatch rs s)"

definition createWith :: "rat \<Rightarrow> string option \<Rightarrow> DetectedIntent" where
  "createWith c t = \<lparr>intent = Create, confidence = c, target = t, anchor = None\<rparr>"

definition detectFileCreation :: "string \<Rightarrow> string \<Rightarrow> DetectedIntent" where
  "detectFileCreation code language =
     (let trimmed = trim code;
          lines = split_nl trimmed;
          firstLine = hd lines;
          match = firstMatch fileCommentPatterns firstLine in
      if match \<noteq> None then createWith 0.95 (group match 1)
      else
     (let headerMatch = exec markdownHeaderRegex firstLine in
      if headerMatch \<noteq> None then createWith 0.9 (group headerMatch 1)
      else
     (let langMatch = exec langPathRegex language in
      if langMatch \<noteq> None then createWith 0.9 (group langMatch 1)
      else
     (let hasImports = test hasImportsRegex trimmed;
          hasExports = test hasExportsRegex trimmed;
          hasClassOrFunction = test hasClassOrFunctionRegex trimmed in
      if hasImports \<and> (hasExports \<or> hasClassOrFunction) \<and> getLineCount code > 20
      then createWith 0.7 None
      else if firstMatch configPatterns trimmed \<noteq> None then createWith 0.85 None
      else createWith 0 None))))"

subsection \<open>detectEdit\<close>

definition singleImportRegex :: rx where
  "singleImportRegex =
     seqs [Bol,
           Group 1 (alts
             [seqs [str ''import'', Plus (Ch Space), Plus (Ch Dot)],
              seqs [str ''from'', Plus (Ch Space), Plus (Ch Dot), Plus (Ch Space),
                    str ''import'', Plus (Ch Space), Plus (Ch Dot)],
              seqs [str ''const'', Plus (Ch Space), Plus (Ch Word), Star (Ch Space), str ''='',
                    Star (Ch Space), str ''require('', Plus (Ch Dot), str '')''],
              seqs [str ''use'', Plus (Ch Space), Plus (Ch Dot), Opt (Ch (Lit CHR '';''))]]),
           Eol]"

definition singleFunctionRegex :: rx where
  "singleFunctionRegex =
     seqs [Bol, Opt (Group 1 (Seq (str ''async'') (Plus (Ch Space)))),
           Group 2 (words [''function'', ''const'', ''let'', ''var'']),
           Plus (Ch Space), Group 3 (Plus (Ch Word))]"

definition pythonFuncRegex :: rx where
  "pythonFuncRegex =
     seqs [Bol, Opt (Group 1 (Seq (str ''async'') (Plus (Ch Space)))), str ''def'',
           Plus (Ch Space), Group 2 (Plus (Ch Word))]"

definition methodRegex :: rx where
  "methodRegex =
     seqs [BolM, Star (Ch Space),
           Opt (Group 1 (words [''public'', ''private'', ''protected'', ''static'', ''async''])),
           Star (Ch Space),
           Opt (Group 2 (words [''function'', ''def'', ''fn'', ''func''])),
           Star (Ch Space), Group 3 (Plus (Ch Word)), Star (Ch Space), str ''('']"

definition hasImportsAtTopRegex :: rx where
  "hasImportsAtTopRegex =
     seqs [Bol,
           Group 1 (alts [Seq (str ''import'') (Ch Space), Seq (str ''from'') (Ch Space),
                          str ''require('', Seq (str ''use'') (Ch Space),
                          Seq (str ''using'') (Ch Space), Seq (str ''package'') (Ch Space)])]"

definition hasMainOrEntryRegex :: rx where
  "hasMainOrEntryRegex =
     Group 1 (alts
       [seqs [str ''if'', Plus (Ch Space), str ''__name__'', Star (Ch Space), str ''=='',
              Star (Ch Space), Ch (OneOf [CHR 0x27, CHR 0x22]), str ''__main__''],
        seqs [str ''fn'', Plus (Ch Space), str ''main'', Star (Ch Space), str ''(''],
        seqs [str ''func'', Plus (Ch Space), str ''main'', Star (Ch Space), str ''(''],
        seqs [str ''int'', Plus (Ch Space), str ''main'', Star (Ch Space), str ''('']])"

definition hasExportsFileRegex :: rx where
  "hasExportsFileRegex =
     Group 1 (Alt (seqs [str ''export'', Plus (Ch Space),
                         Opt (Group 2 (Seq (str ''default'') (Plus (Ch Space))))])
                  (str ''module.exports''))"

definition looksLikeCompleteFile :: "string \<Rightarrow> bool" where
  "looksLikeCompleteFile code =
     (let hasShebang = startsWith code ''#!'';
          hasImportsAtTop = test hasImportsAtTopRegex code;
          hasMainOrEntry = test hasMainOrEntryRegex code;
          hasExports = test hasExportsFileRegex code;
          indicators = (if hasShebang then 1 else 0) + (if hasImportsAtTop then 1 else 0) +
                       (if hasMainOrEntry then 1 else 0) + (if hasExports then (1::nat) else 0) in
      indicators \<ge> 2)"

definition editWith :: "rat \<Rightarrow> string option \<Rightarrow> DetectedIntent" where
  "editWith c a = \<lparr>intent = Edit, confidence = c, target = None, anchor = a\<rparr>"

text \<open>The file of the active editor is not read by \<^verbatim>\<open>detectEdit\<close>, nor is the language.\<close>

definition detectEdit :: "string \<Rightarrow> string \<Rightarrow> string option \<Rightarrow> DetectedIntent" where
  "detectEdit code language activeFile =
     (let trimmed = trim code;
          lines = split_nl trimmed;
          lineCount = length lines in
      if lineCount \<le> 3 \<and> list_ex (\<lambda>l. test singleImportRegex (trim l)) lines
      then editWith 0.85 (Some ''imports'')
      else
     (let funcMatch = exec singleFunctionRegex trimmed in
      if funcMatch \<noteq> None \<and> lineCount < 30 then editWith 0.7 (group funcMatch 3)
      else
     (let pyFuncMatch = exec pythonFuncRegex trimmed in
      if pyFuncMatch \<noteq> None \<and> lineCount < 30 then editWith 0.7 (group pyFuncMatch 2)
      else
     (let methodMatch = exec methodRegex trimmed in
      if methodMatch \<noteq> None \<and> lineCount < 40 \<and> \<not> str_includes trimmed ''class ''
      then editWith 0.6 (group methodMatch 3)
      else if lineCount < 20 \<and> \<not> looksLikeCompleteFile trimmed then editWith 0.5 None
      else editWith 0 None))))"

subsection \<open>detect\<close>

text \<open>A string is truthy when it is defined and not empty.\<close>

definition truthy :: "string option \<Rightarrow> bool" where
  "truthy s = (s \<noteq> None \<and> s \<noteq> Some [])"

definition detect :: "string \<Rightarrow> string \<Rightarrow> string option \<Rightarrow> DetectedIntent" where
  "detect code language activeFile =
     (let commandIntent = detectCommand code in
      if confidence commandIntent > 0.8 then commandIntent
      else
     (let createIntent = detectFileCreation code language in
      if confidence createIntent > 0.7 then createIntent
      else
     (let editIntent = detectEdit code language activeFile in
      if confidence editIntent > 0.5 then editIntent
      else if truthy activeFile \<and> getLineCount code < 50
      then \<lparr>intent = Edit, confidence = 0.4, target = None, anchor = None\<rparr>
      else \<lparr>intent = Create, confidence = 0.3, target = None, anchor = None\<rparr>)))"

section \<open>SymbolResolver\<close>

datatype "method" = exact_symbol | fuzzy_symbol | text_search | cursor_fallback

record ResolvedPosition =
  position :: position
  range :: "vrange option"
  "method" :: "method"
  symbolName :: "string option"

text \<open>
  A symbol of the host's symbol index: its name, its range and its children (no children
  is the empty list).
\<close>

datatype DocumentSymbol =
  DocumentSymbol (name: string) (symbolRange: vrange) (children: "DocumentSymbol list")

text \<open>
  A text document of the host: its uri (the path of its file), its text, and the host's
  conversion of an offset in the text to a position.
\<close>

record TextDocument =
  uri :: string
  getText :: string
  positionAt :: "nat \<Rightarrow> position"

text \<open>
  What the host's symbol provider does when it is asked for the symbols of the document:
  it throws, or it returns a list of symbols or \<^verbatim>\<open>undefined\<close>.
\<close>

datatype symbolProvider = Throws | Returns "DocumentSymbol list option"

definition getDocumentSymbols :: "symbolProvider \<Rightarrow> DocumentSymbol list option" where
  "getDocumentSymbols provider =
     (case provider of
        Throws \<Rightarrow> None
      | Returns symbols \<Rightarrow> symbols)"

subsection \<open>levenshteinDistance\<close>

text \<open>
  The matrix has a row for every index of \<open>b\<close> and a column for every index of \<open>a\<close>.
  Before the main loops row 0 is \<open>0, 1, ..., |a|\<close> and row \<open>i\<close> holds \<open>i\<close> alone;
  the assignment to \<^verbatim>\<open>matrix[i][j]\<close> then extends row \<open>i\<close> by one cell.
\<close>

definition cell :: "string \<Rightarrow> string \<Rightarrow> nat list list \<Rightarrow> nat \<Rightarrow> nat \<Rightarrow> nat" where
  "cell a b matrix i j =
     (if b ! (i - 1) = a ! (j - 1) then matrix ! (i - 1) ! (j - 1)
      else min (matrix ! (i - 1) ! (j - 1) + 1)
               (min (matrix ! i ! (j - 1) + 1) (matrix ! (i - 1) ! j + 1)))"

definition levenshteinDistance :: "string \<Rightarrow> string \<Rightarrow> nat" where
  "levenshteinDistance a b =
     (if length a = 0 then length b
      else if length b = 0 then length a
      else
        (let matrix0 = map (\<lambda>i. [i]) [0..<Suc (length b)];
             matrix1 = matrix0[0 := [0..<Suc (length a)]];
             matrix2 =
               fold (\<lambda>i m. fold (\<lambda>j m. m[i := m ! i @ [cell a b m i j]]) [1..<Suc (length a)] m)
                    [1..<Suc (length b)] matrix1 in
         matrix2 ! length b ! length a))"

subsection \<open>findSymbol\<close>

datatype mode = exact | fuzzy

definition symbolMatches :: "mode \<Rightarrow> string \<Rightarrow> string \<Rightarrow> bool" where
  "symbolMatches mode symName normalizedName =
     (case mode of
        exact \<Rightarrow> symName = normalizedName
      | fuzzy \<Rightarrow>
          str_includes symName normalizedName \<or>
          str_includes normalizedName symName \<or>
          levenshteinDistance symName normalizedName \<le> 3)"

fun findSymbol :: "DocumentSymbol list \<Rightarrow> string \<Rightarrow> mode \<Rightarrow> DocumentSymbol option" where
  "findSymbol [] nm mode = None"
| "findSymbol (DocumentSymbol n r cs # symbols) nm mode =
     (if symbolMatches mode (toLowerCase n) (toLowerCase nm) then Some (DocumentSymbol n r cs)
      else
        (case (if cs \<noteq> [] then findSymbol cs nm mode else None) of
           Some childMatch \<Rightarrow> Some childMatch
         | None \<Rightarrow> findSymbol symbols nm mode))"

subsection \<open>findImportSection\<close>

definition requireRegex :: rx where
  "requireRegex =
     seqs [Bol, str ''const'', Plus (Ch Space), Plus (Ch Word), Star (Ch Space), str ''='',
           Star (Ch Space), str ''require('']"

definition isImport :: "string \<Rightarrow> bool" where
  "isImport l =
     (startsWith l ''import '' \<or> startsWith l ''from '' \<or> test requireRegex l \<or>
      startsWith l ''use '' \<or> startsWith l ''using '')"

text \<open>
  The first loop, from line \<open>i\<close> on; \<open>lastImportLine\<close> is \<open>None\<close> for the source's -1.
\<close>

fun importLoop :: "string list \<Rightarrow> nat \<Rightarrow> nat option \<Rightarrow> nat option" where
  "importLoop [] i lastImportLine = lastImportLine"
| "importLoop (l # ls) i lastImportLine =
     (let line = trim l in
      if i < 10 \<and> (line = [] \<or> startsWith line ''//'' \<or> startsWith line ''#'' \<or>
                    startsWith line ''/*'' \<or> startsWith line ''*'')
      then importLoop ls (Suc i) lastImportLine
      else if isImport line then importLoop ls (Suc i) (Some i)
      else if lastImportLine \<noteq> None \<and> line \<noteq> [] then lastImportLine
      else importLoop ls (Suc i) lastImportLine)"

text \<open>The second loop, over the lines it is given, from line \<open>i\<close> on.\<close>

fun startLoop :: "string list \<Rightarrow> nat \<Rightarrow> nat option" where
  "startLoop [] i = None"
| "startLoop (l # ls) i =
     (let line = trim l in
      if line \<noteq> [] \<and> \<not> startsWith line ''#!'' \<and> \<not> startsWith line ''//'' \<and>
         \<not> startsWith line ''/*''
      then Some i
      else startLoop ls (Suc i))"

definition findImportSection :: "TextDocument \<Rightarrow> position option" where
  "findImportSection document =
     (let text = getText document;
          lines = split_nl text in
      case importLoop lines 0 None of
        Some lastImportLine \<Rightarrow> Some \<lparr>line = lastImportLine + 1, character = 0\<rparr>
      | None \<Rightarrow>
          (case startLoop (take (min 5 (length lines)) lines) 0 of
             Some i \<Rightarrow> Some \<lparr>line = i, character = 0\<rparr>
           | None \<Rightarrow> Some \<lparr>line = 0, character = 0\<rparr>))"



subsection \<open>findTextMatch\<close>

text \<open>
  \<^verbatim>\<open>escapeRegex\<close> puts a backslash before every character that is special in a regular
  expression, so that the escaped text matches itself character by character, here under
  the \<^verbatim>\<open>i\<close> flag.
\<close>

definition escaped :: "string \<Rightarrow> rx" where
  "escaped searchText = stri searchText"

definition funcPatterns :: "string \<Rightarrow> rx list" where
  "funcPatterns searchText =
     [seqs [stri ''function'', Plus (Ch Space), escaped searchText, Star (Ch Space), stri ''(''],
      seqs [stri ''def'', Plus (Ch Space), escaped searchText, Star (Ch Space), stri ''(''],
      seqs [Group 1 (wordsi [''const'', ''let'', ''var'']), Plus (Ch Space), escaped searchText,
            Star (Ch Space), stri ''=''],
      seqs [stri ''class'', Plus (Ch Space), escaped searchText],
      seqs [stri ''fn'', Plus (Ch Space), escaped searchText, Star (Ch Space), stri ''(''],
      seqs [stri ''func'', Plus (Ch Space), escaped searchText, Star (Ch Space), stri ''('']]"

definition findTextMatch :: "TextDocument \<Rightarrow> string \<Rightarrow> position option" where
  "findTextMatch document searchText =
     (let text = getText document;
          normalizedSearch = toLowerCase searchText in
      case indexOf (toLowerCase text) normalizedSearch of
        Some index \<Rightarrow> Some (positionAt document index)
      | None \<Rightarrow>
          (case firstMatch (funcPatterns searchText) text of
             Some (index, m) \<Rightarrow> Some (positionAt document index)
           | None \<Rightarrow> None))"

subsection \<open>resolveAnchor\<close>

definition resolveAnchor ::
  "TextDocument \<Rightarrow> symbolProvider \<Rightarrow> string option \<Rightarrow> position \<Rightarrow> ResolvedPosition" where
  "resolveAnchor document provider anchor' cursorPosition =
     (if \<not> truthy anchor'
      then \<lparr>position = cursorPosition, range = None, method = cursor_fallback, symbolName = None\<rparr>
      else
     (let importPosition =
            (if toLowerCase (the anchor') = ''imports'' then findImportSection document
             else None) in
      case importPosition of
        Some p \<Rightarrow> \<lparr>position = p, range = None, method = text_search, symbolName = None\<rparr>
      | None \<Rightarrow>
     (let symbols = getDocumentSymbols provider;
          exactMatch =
            (case symbols of
               None \<Rightarrow> None
             | Some syms \<Rightarrow>
                 if length syms > 0 then findSymbol syms (the anchor') exact else None) in
      case exactMatch of
        Some m \<Rightarrow>
          \<lparr>position = start (symbolRange m), range = Some (symbolRange m),
           method = exact_symbol, symbolName = Some (name m)\<rparr>
      | None \<Rightarrow>
     (let fuzzyMatch =
            (case symbols of
               None \<Rightarrow> None
             | Some syms \<Rightarrow>
                 if length syms > 0 then findSymbol syms (the anchor') fuzzy else None) in
      case fuzzyMatch of
        Some m \<Rightarrow>
          \<lparr>position = start (symbolRange m), range = Some (symbolRange m),
           method = fuzzy_symbol, symbolName = Some (name m)\<rparr>
      | None \<Rightarrow>
     (case findTextMatch document (the anchor') of
        Some textPosition \<Rightarrow>
          \<lparr>position = textPosition, range = None, method = text_search, symbolName = None\<rparr>
      | None \<Rightarrow>
          \<lparr>position = cursorPosition, range = None, method = cursor_fallback,
           symbolName = None\<rparr>)))))"

text \<open>
  A document for examples: the host's \<open>positionAt\<close> on a text whose lines end in a line
  feed (the line is the number of line feeds before the offset, the character the
  distance from the last of them).
\<close>

definition linePositionAt :: "string \<Rightarrow> nat \<Rightarrow> position" where
  "linePositionAt text offset =
     (let pre = take offset text in
      \<lparr>line = length (filter (\<lambda>c. c = NL) pre),
       character = length (takeWhile (\<lambda>c. c \<noteq> NL) (rev pre))\<rparr>)"

definition documentOf :: "string \<Rightarrow> string \<Rightarrow> TextDocument" where
  "documentOf path text = \<lparr>uri = path, getText = text, positionAt = linePositionAt text\<rparr>"

text \<open>The symbols of a symbol tree, children included, in the order \<open>findSymbol\<close> visits them.\<close>

fun allSymbols :: "DocumentSymbol list \<Rightarrow> DocumentSymbol list" where
  "allSymbols [] = []"
| "allSymbols (DocumentSymbol n r cs # symbols) =
     DocumentSymbol n r cs # allSymbols cs @ allSymbols symbols"

section \<open>The host\<close>

text \<open>
  The services call into the editor that hosts them: its documents, editors, prompts,
  terminals, file system and commands. The host is not part of the program. It is a
  parameter of the model: a record of functions on a state of the host, of any type \<open>'w\<close>.
  A call takes the state and returns the state after it, with the value it returns or
  the exception it throws.
\<close>

type_synonym ('s, 'a) eff = "'s \<Rightarrow> (exn + 'a) \<times> 's"

definition ret :: "'a \<Rightarrow> ('s, 'a) eff" where
  "ret x = (\<lambda>s. (Inr x, s))"

definition throw :: "exn \<Rightarrow> ('s, 'a) eff" where
  "throw e = (\<lambda>s. (Inl e, s))"

text \<open>One step after another; an exception of the first step ends the sequence.\<close>

definition andThen :: "('s, 'a) eff \<Rightarrow> ('a \<Rightarrow> ('s, 'b) eff) \<Rightarrow> ('s, 'b) eff" where
  "andThen m f =
     (\<lambda>s. case m s of
            (Inl e, s') \<Rightarrow> (Inl e, s')
          | (Inr x, s') \<Rightarrow> f x s')"

text \<open>\<^verbatim>\<open>try { m } catch (e) { h(e) }\<close>.\<close>

definition tryCatch :: "('s, 'a) eff \<Rightarrow> (exn \<Rightarrow> ('s, 'a) eff) \<Rightarrow> ('s, 'a) eff" where
  "tryCatch m h =
     (\<lambda>s. case m s of
            (Inl e, s') \<Rightarrow> h e s'
          | (Inr x, s') \<Rightarrow> (Inr x, s'))"

text \<open>A call whose promise is not awaited: it happens, its outcome is dropped.\<close>

definition unawaited :: "('s, 'a) eff \<Rightarrow> ('s, unit) eff" where
  "unawaited m = (\<lambda>s. (Inr (), snd (m s)))"

definition reads :: "('s \<Rightarrow> 'a) \<Rightarrow> ('s, 'a) eff" where
  "reads f = (\<lambda>s. (Inr (f s), s))"

datatype previewMode = always | edits_only | never

datatype createFileLocation = workspace_root | current_folder | ask

record SmartApplyConfig =
  previewMode :: previewMode
  autoDetectIntent :: bool
  createFileLocation :: createFileLocation
  showFallbackWarnings :: bool

text \<open>An editor: its document and \<^verbatim>\<open>selection.active\<close>, the position of the cursor.\<close>

record TextEditor =
  document :: TextDocument
  active :: position

text \<open>The edit an \<^verbatim>\<open>editBuilder\<close> is given: one replacement or one insertion.\<close>

datatype editOp = Replace vrange string | Insert position string

text \<open>The value of the item chosen in the quick pick of \<open>handleCreate\<close>.\<close>

datatype pick = Workspace | Current | Choose

text \<open>
  What \<open>normalizeLanguage\<close> returns: a language identifier, or, for a key that the
  table does not have but every object inherits, the inherited property, which is not a
  string. The key is in lower case, so the inherited names it can be are
  \<^verbatim>\<open>constructor\<close> and \<^verbatim>\<open>__proto__\<close>.
\<close>

datatype languageId = LanguageId string | InheritedProperty string

record 'w host =
  getConfiguration :: "'w \<Rightarrow> SmartApplyConfig"
  activeTextEditor :: "'w \<Rightarrow> TextEditor option"
  visibleTextEditors :: "'w \<Rightarrow> TextEditor list"
  workspaceFolders :: "'w \<Rightarrow> string list option"
  activeTerminal :: "'w \<Rightarrow> string option"
  executeDocumentSymbolProvider :: "'w \<Rightarrow> string \<Rightarrow> symbolProvider"
  now :: "'w \<Rightarrow> nat"
  joinPath :: "string \<Rightarrow> string \<Rightarrow> string"
  basename :: "string \<Rightarrow> string"
  showQuickPick :: "string \<Rightarrow> ('w, pick option) eff"
  showOpenDialog :: "string \<Rightarrow> ('w, string list option) eff"
  showWarningMessage :: "string \<Rightarrow> string list \<Rightarrow> ('w, string option) eff"
  showInformationMessage :: "string \<Rightarrow> ('w, unit) eff"
  showErrorMessage :: "string \<Rightarrow> ('w, unit) eff"
  stat :: "string \<Rightarrow> ('w, unit) eff"
  createDirectory :: "string \<Rightarrow> ('w, unit) eff"
  writeFile :: "string \<Rightarrow> string \<Rightarrow> ('w, unit) eff"
  openTextDocument :: "string \<Rightarrow> ('w, TextDocument) eff"
  openUntitledDocument :: "string \<Rightarrow> languageId \<Rightarrow> ('w, TextDocument) eff"
  showTextDocument :: "TextDocument \<Rightarrow> ('w, TextEditor) eff"
  createTerminal :: "string \<Rightarrow> ('w, string) eff"
  showTerminal :: "string \<Rightarrow> ('w, unit) eff"
  sendText :: "string \<Rightarrow> string \<Rightarrow> bool \<Rightarrow> ('w, unit) eff"
  edit :: "TextEditor \<Rightarrow> editOp \<Rightarrow> ('w, bool) eff"
  randomUUID :: "('w, string) eff"
  diff :: "string \<Rightarrow> string \<Rightarrow> string \<Rightarrow> ('w, unit) eff"
  closeActiveEditor :: "('w, unit) eff"

section \<open>DiffPreviewService\<close>

record PendingChange =
  id :: string
  originalUri :: string
  position :: position
  range :: "vrange option"
  newCode :: string
  proposedContent :: string
  createdAt :: nat

datatype previewAction = preview_shown | applied_directly | error

record PreviewResult =
  success :: bool
  action :: previewAction
  changeId :: "string option"
  error :: "string option"

text \<open>
  The state the services run in: the map of pending changes the preview service owns, and
  the state of the host.
\<close>

record 'w state =
  pendingChanges :: "string \<rightharpoonup> PendingChange"
  world :: 'w

text \<open>A call of the host, in the state of the services.\<close>

definition hostCall :: "('w, 'a) eff \<Rightarrow> ('w state, 'a) eff" where
  "hostCall m = (\<lambda>s. case m (world s) of (r, w) \<Rightarrow> (r, s\<lparr>world := w\<rparr>))"

definition hostRead :: "('w \<Rightarrow> 'a) \<Rightarrow> ('w state, 'a) eff" where
  "hostRead f = reads (\<lambda>s. f (world s))"

text \<open>\<^verbatim>\<open>String(error)\<close>, the text of an exception.\<close>

definition String :: "exn \<Rightarrow> string" where
  "String e =
     (case e of
        TypeError property \<Rightarrow>
          ''TypeError: Cannot read properties of undefined (reading '' @ [CHR 0x27] @ property @
          [CHR 0x27] @ '')''
      | HostError m \<Rightarrow> m)"

definition showPreview ::
  "'w host \<Rightarrow> TextEditor \<Rightarrow> position \<Rightarrow> string \<Rightarrow> vrange option \<Rightarrow> ('w state, PreviewResult) eff" where
  "showPreview h editor pos code rng =
     tryCatch
       (let originalUri = uri (document editor) in
        andThen (\<lambda>s. (generateProposedContent (getText (document editor)) pos code rng, s))
          (\<lambda>proposedContent.
        andThen (hostCall (randomUUID h)) (\<lambda>changeId.
        andThen (hostRead (now h)) (\<lambda>createdAt.
        andThen (\<lambda>s. (Inr (),
                  s\<lparr>pendingChanges := (pendingChanges s)(changeId \<mapsto>
                       \<lparr>id = changeId, originalUri = originalUri, position = pos, range = rng,
                        newCode = code, proposedContent = proposedContent,
                        createdAt = createdAt\<rparr>)\<rparr>)) (\<lambda>_.
        andThen (hostCall (diff h originalUri
                   (''mistral-preview:'' @ basename h originalUri @ ''?'' @ changeId)
                   (''Preview Changes: '' @ basename h originalUri))) (\<lambda>_.
        ret \<lparr>success = True, action = preview_shown, changeId = Some changeId,
             error = None\<rparr>))))))
       (\<lambda>e. ret \<lparr>success = False, action = previewAction.error, changeId = None,
                 error = Some (String e)\<rparr>)"

definition applyChange :: "'w host \<Rightarrow> TextEditor \<Rightarrow> PendingChange \<Rightarrow> ('w state, bool) eff" where
  "applyChange h editor change =
     hostCall (edit h editor
       (case range change of
          Some r \<Rightarrow> Replace r (newCode change)
        | None \<Rightarrow> Insert (position change) (newCode change)))"

definition acceptChange :: "'w host \<Rightarrow> string \<Rightarrow> ('w state, bool) eff" where
  "acceptChange h cid =
     andThen (reads (\<lambda>s. pendingChanges s cid)) (\<lambda>found.
     case found of
       None \<Rightarrow>
         andThen (unawaited (hostCall (showWarningMessage h ''Change not found or expired.'' [])))
           (\<lambda>_. ret False)
     | Some change \<Rightarrow>
         tryCatch
           (andThen (hostRead (visibleTextEditors h)) (\<lambda>editors.
            andThen
              (case find (\<lambda>e. uri (document e) = originalUri change) editors of
                 Some e \<Rightarrow> ret e
               | None \<Rightarrow>
                   andThen (hostCall (openTextDocument h (originalUri change))) (\<lambda>doc.
                   hostCall (showTextDocument h doc))) (\<lambda>editor.
            andThen (applyChange h editor change) (\<lambda>ok.
            if ok then
              andThen (\<lambda>s. (Inr (), s\<lparr>pendingChanges := (pendingChanges s)(cid := None)\<rparr>)) (\<lambda>_.
              andThen (hostCall (closeActiveEditor h)) (\<lambda>_.
              andThen (unawaited (hostCall
                         (showInformationMessage h ''Changes applied successfully.''))) (\<lambda>_.
              ret ok)))
            else ret ok))))
           (\<lambda>e.
            andThen (unawaited (hostCall
                       (showErrorMessage h (''Failed to apply changes: '' @ String e)))) (\<lambda>_.
            ret False)))"

definition rejectChange :: "'w host \<Rightarrow> string \<Rightarrow> ('w state, unit) eff" where
  "rejectChange h cid =
     andThen (reads (\<lambda>s. pendingChanges s cid)) (\<lambda>found.
     case found of
       None \<Rightarrow> ret ()
     | Some change \<Rightarrow>
         andThen (\<lambda>s. (Inr (), s\<lparr>pendingChanges := (pendingChanges s)(cid := None)\<rparr>)) (\<lambda>_.
         andThen (hostCall (closeActiveEditor h)) (\<lambda>_.
         unawaited (hostCall (showInformationMessage h ''Changes rejected.'')))))"

subsection \<open>acceptChange, at its awaited edit\<close>

text \<open>
  \<open>acceptChange\<close> awaits the edit it asks the editor for, and another call can start
  while it waits. The two parts of \<open>acceptChange\<close> on either side of that point: up to
  the request of the edit, and from the outcome of the edit on. The first part ends the
  call when the change is not found or a host call throws.
\<close>

datatype acceptProgress = Finished bool | EditAwaited bool

definition acceptUntilEdit :: "'w host \<Rightarrow> string \<Rightarrow> ('w state, acceptProgress) eff" where
  "acceptUntilEdit h cid =
     andThen (reads (\<lambda>s. pendingChanges s cid)) (\<lambda>found.
     case found of
       None \<Rightarrow>
         andThen (unawaited (hostCall (showWarningMessage h ''Change not found or expired.'' [])))
           (\<lambda>_. ret (Finished False))
     | Some change \<Rightarrow>
         tryCatch
           (andThen (hostRead (visibleTextEditors h)) (\<lambda>editors.
            andThen
              (case find (\<lambda>e. uri (document e) = originalUri change) editors of
                 Some e \<Rightarrow> ret e
               | None \<Rightarrow>
                   andThen (hostCall (openTextDocument h (originalUri change))) (\<lambda>doc.
                   hostCall (showTextDocument h doc))) (\<lambda>editor.
            andThen (applyChange h editor change) (\<lambda>ok.
            ret (EditAwaited ok)))))
           (\<lambda>e.
            andThen (unawaited (hostCall
                       (showErrorMessage h (''Failed to apply changes: '' @ String e)))) (\<lambda>_.
            ret (Finished False))))"

definition acceptAfterEdit :: "'w host \<Rightarrow> string \<Rightarrow> bool \<Rightarrow> ('w state, bool) eff" where
  "acceptAfterEdit h cid ok =
     tryCatch
       (if ok then
          andThen (\<lambda>s. (Inr (), s\<lparr>pendingChanges := (pendingChanges s)(cid := None)\<rparr>)) (\<lambda>_.
          andThen (hostCall (closeActiveEditor h)) (\<lambda>_.
          andThen (unawaited (hostCall
                     (showInformationMessage h ''Changes applied successfully.''))) (\<lambda>_.
          ret ok)))
        else ret ok)
       (\<lambda>e.
        andThen (unawaited (hostCall
                   (showErrorMessage h (''Failed to apply changes: '' @ String e)))) (\<lambda>_.
        ret False))"

section \<open>SmartApplyService\<close>

record ApplyPayload =
  code :: string
  language :: string
  intent :: intent
  target :: "string option"
  anchor :: "string option"

datatype applyAction = created | edited | sent_to_terminal | preview_shown | cancelled | error

record ApplyResult =
  success :: bool
  action :: applyAction
  message :: "string option"
  changeId :: "string option"

definition getConfig :: "'w host \<Rightarrow> ('w state, SmartApplyConfig) eff" where
  "getConfig h = hostRead (getConfiguration h)"

subsection \<open>cleanCodeForFile and normalizeLanguage\<close>

text \<open>\<^verbatim>\<open>[^\s]+\.\w+\<close>, not captured.\<close>

definition pathPattern :: rx where
  "pathPattern = seqs [Plus (Ch NotSpace), Ch (Lit CHR ''.''), Plus (Ch Word)]"

definition fileHeaderPatterns :: "rx list" where
  "fileHeaderPatterns =
     [seqs [Bol, str ''//'', Star (Ch Space), pathPattern, Star (Ch Space), Eol],
      seqs [Bol, str ''#'', Star (Ch Space), pathPattern, Star (Ch Space), Eol],
      seqs [Bol, str ''/*'', Star (Ch Space), pathPattern, Star (Ch Space), str ''*/'',
            Star (Ch Space), Eol],
      seqs [Bol, str ''<!--'', Star (Ch Space), pathPattern, Star (Ch Space), str ''-->'',
            Star (Ch Space), Eol],
      seqs [Bol, rep1to3 (Ch (Lit CHR ''#'')), Plus (Ch Space), pathPattern, Star (Ch Space),
            Eol]]"

definition cleanCodeForFile :: "string \<Rightarrow> string" where
  "cleanCodeForFile src =
     (let lines = split_nl src;
          firstLine = hd lines in
      if list_ex (\<lambda>pattern. test pattern firstLine) fileHeaderPatterns
      then trimStart (join_nl (tl lines))
      else src)"

definition languageMap :: "string \<rightharpoonup> string" where
  "languageMap =
     map_of [(''js'', ''javascript''), (''ts'', ''typescript''), (''py'', ''python''),
             (''rb'', ''ruby''), (''rs'', ''rust''), (''sh'', ''shellscript''),
             (''bash'', ''shellscript''), (''zsh'', ''shellscript''), (''yml'', ''yaml''),
             (''md'', ''markdown'')]"

definition normalizeLanguage :: "string \<Rightarrow> languageId" where
  "normalizeLanguage lang =
     (let langOnly = takeWhile (\<lambda>c. c \<noteq> CHR '':'') lang;
          key = toLowerCase langOnly in
      case languageMap key of
        Some l \<Rightarrow> LanguageId l
      | None \<Rightarrow>
          if key \<in> {''constructor'', ''__proto__''} then InheritedProperty key
          else if langOnly \<noteq> [] then LanguageId langOnly
          else LanguageId ''plaintext'')"

subsection \<open>handleCreate\<close>

definition cancelledResult :: ApplyResult where
  "cancelledResult = \<lparr>success = False, action = cancelled, message = None, changeId = None\<rparr>"

text \<open>
  The folder of the active document, or the workspace root when no editor is active.
\<close>

definition currentFolder :: "'w host \<Rightarrow> string \<Rightarrow> ('w state, string) eff" where
  "currentFolder h workspaceRoot =
     andThen (hostRead (activeTextEditor h)) (\<lambda>editor.
     case editor of
       Some e \<Rightarrow> ret (joinPath h (uri (document e)) ''..'')
     | None \<Rightarrow> ret workspaceRoot)"

text \<open>The base path of a new file; \<open>None\<close> when the user cancels a prompt.\<close>

definition basePathFor ::
  "'w host \<Rightarrow> SmartApplyConfig \<Rightarrow> string \<Rightarrow> string \<Rightarrow> ('w state, string option) eff" where
  "basePathFor h config workspaceRoot tgt =
     (case createFileLocation config of
        current_folder \<Rightarrow> andThen (currentFolder h workspaceRoot) (\<lambda>p. ret (Some p))
      | ask \<Rightarrow>
          andThen (hostCall (showQuickPick h (''Where to create '' @ tgt @ ''?''))) (\<lambda>choice.
          case choice of
            None \<Rightarrow> ret None
          | Some Current \<Rightarrow> andThen (currentFolder h workspaceRoot) (\<lambda>p. ret (Some p))
          | Some Choose \<Rightarrow>
              andThen (hostCall (showOpenDialog h workspaceRoot)) (\<lambda>folders.
              case folders of
                None \<Rightarrow> ret None
              | Some [] \<Rightarrow> ret None
              | Some (f # _) \<Rightarrow> ret (Some f))
          | Some Workspace \<Rightarrow> ret (Some workspaceRoot))
      | workspace_root \<Rightarrow> ret (Some workspaceRoot))"

definition handleCreate :: "'w host \<Rightarrow> ApplyPayload \<Rightarrow> ('w state, ApplyResult) eff" where
  "handleCreate h payload =
     andThen (getConfig h) (\<lambda>config.
     let cleanedCode = cleanCodeForFile (code payload) in
     andThen (hostRead (workspaceFolders h)) (\<lambda>folders.
     if truthy (target payload) \<and> folders \<noteq> None then
       (case the folders of
          [] \<Rightarrow> throw (TypeError ''uri'')
        | workspaceRoot # _ \<Rightarrow>
            (let tgt = the (target payload) in
             andThen (basePathFor h config workspaceRoot tgt) (\<lambda>basePath.
             case basePath of
               None \<Rightarrow> ret cancelledResult
             | Some basePath \<Rightarrow>
                 (let targetUri = joinPath h basePath tgt in
                  andThen
                    (tryCatch
                       (andThen (hostCall (stat h targetUri)) (\<lambda>_.
                        andThen (hostCall (showWarningMessage h
                                   (''File '' @ [CHR 0x22] @ tgt @ [CHR 0x22] @
                                    '' already exists. Overwrite?'')
                                   [''Overwrite'', ''Cancel''])) (\<lambda>overwrite.
                        ret (overwrite \<noteq> Some ''Overwrite''))))
                       (\<lambda>e. ret False)) (\<lambda>declined.
                  if declined then ret cancelledResult
                  else
                    andThen (tryCatch (hostCall (createDirectory h (joinPath h targetUri ''..'')))
                                      (\<lambda>e. ret ())) (\<lambda>_.
                    andThen (hostCall (writeFile h targetUri cleanedCode)) (\<lambda>_.
                    andThen (hostCall (openTextDocument h targetUri)) (\<lambda>doc.
                    andThen (hostCall (showTextDocument h doc)) (\<lambda>_.
                    ret \<lparr>success = True, action = created,
                         message = Some (''Created '' @ tgt), changeId = None\<rparr>)))))))))
     else
       andThen (hostCall (openUntitledDocument h cleanedCode
                  (normalizeLanguage (language payload)))) (\<lambda>doc.
       andThen (hostCall (showTextDocument h doc)) (\<lambda>_.
       ret \<lparr>success = True, action = created, message = Some ''Created new file'',
            changeId = None\<rparr>))))"

subsection \<open>handleCommand\<close>

definition promptPrefixRegex :: rx where
  "promptPrefixRegex = seqs [Bol, Ch (OneOf ''$>%''), Star (Ch Space)]"

text \<open>\<^verbatim>\<open>s.replace(r, "")\<close> for an expression without the \<^verbatim>\<open>g\<close> flag.\<close>

definition removeFirst :: "rx \<Rightarrow> string \<Rightarrow> string" where
  "removeFirst r s =
     (case exec r s of
        None \<Rightarrow> s
      | Some (i, prev, rest, caps) \<Rightarrow> take i s @ rest)"

definition handleCommand :: "'w host \<Rightarrow> ApplyPayload \<Rightarrow> ('w state, ApplyResult) eff" where
  "handleCommand h payload =
     (let cleanedCommand = trim (removeFirst promptPrefixRegex (trim (code payload))) in
      andThen (hostRead (activeTerminal h)) (\<lambda>activeT.
      andThen (case activeT of
                 Some t \<Rightarrow> ret t
               | None \<Rightarrow> hostCall (createTerminal h ''Mistral'')) (\<lambda>terminal.
      andThen (hostCall (showTerminal h terminal)) (\<lambda>_.
      andThen (hostCall (sendText h terminal cleanedCommand False)) (\<lambda>_.
      ret \<lparr>success = True, action = sent_to_terminal,
           message = Some ''Command sent to terminal (press Enter to run)'',
           changeId = None\<rparr>)))))"

subsection \<open>handleEdit\<close>

text \<open>
  What follows the validation of the target: the anchor is resolved, a note may be
  shown, and the code is previewed or applied.
\<close>

definition applyEdit ::
  "'w host \<Rightarrow> TextEditor \<Rightarrow> ApplyPayload \<Rightarrow> SmartApplyConfig \<Rightarrow> ('w state, ApplyResult) eff" where
  "applyEdit h editor payload config =
     andThen (hostRead (\<lambda>w. executeDocumentSymbolProvider h w (uri (document editor))))
       (\<lambda>provider.
     let resolved = resolveAnchor (document editor) provider (anchor payload) (active editor) in
     andThen
       (if showFallbackWarnings config \<and> method resolved = cursor_fallback \<and>
           truthy (anchor payload)
        then unawaited (hostCall (showWarningMessage h
               (''Could not find '' @ [CHR 0x22] @ the (anchor payload) @ [CHR 0x22] @
                ''. Inserting at cursor position.'') []))
        else if method resolved = fuzzy_symbol \<and> truthy (symbolName resolved)
        then unawaited (hostCall (showInformationMessage h
               (''Matched to '' @ [CHR 0x22] @ the (symbolName resolved) @ [CHR 0x22] @
                '' (fuzzy match)'')))
        else ret ()) (\<lambda>_.
     let shouldPreview =
           (previewMode config = always \<or>
            (previewMode config = edits_only \<and> intent payload = Edit)) in
     if shouldPreview then
       andThen (showPreview h editor (ResolvedPosition.position resolved) (code payload)
                  (ResolvedPosition.range resolved)) (\<lambda>previewResult.
       if PreviewResult.success previewResult
       then ret \<lparr>success = True, action = preview_shown, message = None,
                 changeId = PreviewResult.changeId previewResult\<rparr>
       else ret \<lparr>success = False, action = error,
                 message = PreviewResult.error previewResult, changeId = None\<rparr>)
     else
       andThen (hostCall (edit h editor
                  (case ResolvedPosition.range resolved of
                     Some r \<Rightarrow> Replace r (code payload)
                   | None \<Rightarrow> Insert (ResolvedPosition.position resolved) (code payload))))
         (\<lambda>ok.
       ret \<lparr>success = ok, action = (if ok then edited else error),
            message = Some (if ok then ''Code applied'' else ''Failed to apply code''),
            changeId = None\<rparr>)))"

definition handleEdit ::
  "'w host \<Rightarrow> ApplyPayload \<Rightarrow> SmartApplyConfig \<Rightarrow> ('w state, ApplyResult) eff" where
  "handleEdit h payload config =
     andThen (hostRead (activeTextEditor h)) (\<lambda>found.
     case found of
       None \<Rightarrow> handleCreate h payload
     | Some editor \<Rightarrow>
         (let activeFileName = basename h (uri (document editor)) in
          if truthy (target payload) \<and> activeFileName \<noteq> basename h (the (target payload))
          then
            andThen (hostCall (showWarningMessage h
                       (''Target file '' @ [CHR 0x22] @ the (target payload) @ [CHR 0x22] @
                        '' doesn'' @ [CHR 0x27] @ ''t match active file '' @ [CHR 0x22] @
                        activeFileName @ [CHR 0x22] @ ''. Apply anyway?'')
                       [''Apply Here'', ''Create New File'', ''Cancel''])) (\<lambda>chosen.
            if chosen = Some ''Create New File'' then handleCreate h payload
            else if chosen = Some ''Cancel'' \<or> \<not> truthy chosen then ret cancelledResult
            else applyEdit h editor payload config)
          else applyEdit h editor payload config))"

subsection \<open>applySingle and apply\<close>

text \<open>
  The intent a payload is routed by, and the payload with the gaps of its target and
  anchor filled: the detected values when the confidence is above 0.6. \<open>applySingle\<close>
  writes the target and the anchor into the payload object it was given; the payloads of
  an array are taken to be distinct objects (they arrive in a message from the webview),
  so that no unit sees what another wrote.
\<close>

definition adoptDetected :: "DetectedIntent \<Rightarrow> ApplyPayload \<Rightarrow> intent \<times> ApplyPayload" where
  "adoptDetected detected payload =
     (if confidence detected > 0.6 then
        (DetectedIntent.intent detected,
         (let payload1 =
                (if truthy (DetectedIntent.target detected) \<and> \<not> truthy (target payload)
                 then payload\<lparr>target := DetectedIntent.target detected\<rparr> else payload) in
          if truthy (DetectedIntent.anchor detected) \<and> \<not> truthy (anchor payload1)
          then payload1\<lparr>anchor := DetectedIntent.anchor detected\<rparr> else payload1))
      else (intent payload, payload))"

definition applySingle :: "'w host \<Rightarrow> ApplyPayload \<Rightarrow> ('w state, ApplyResult) eff" where
  "applySingle h payload =
     andThen (getConfig h) (\<lambda>config.
     andThen (hostRead (activeTextEditor h)) (\<lambda>editor.
     let activeFile = map_option (\<lambda>e. uri (document e)) editor;
         (routed, payload') =
           (if autoDetectIntent config
            then adoptDetected (detect (code payload) (language payload) activeFile) payload
            else (intent payload, payload)) in
     case routed of
       Create \<Rightarrow> handleCreate h payload'
     | Command \<Rightarrow> handleCommand h payload'
     | Edit \<Rightarrow> handleEdit h payload' config))"

text \<open>The decimal digits of a number, as a template literal renders it.\<close>

fun decimal :: "nat \<Rightarrow> string" where
  "decimal n =
     (if n < 10 then [char_of (48 + n)] else decimal (n div 10) @ [char_of (48 + n mod 10)])"

declare decimal.simps [simp del]

text \<open>
  The loop over the payloads of an array: the result of the first unit that does not
  succeed, or \<open>None\<close> when the loop runs to its end.
\<close>

fun applyEach :: "'w host \<Rightarrow> ApplyPayload list \<Rightarrow> ('w state, ApplyResult option) eff" where
  "applyEach h [] = ret None"
| "applyEach h (p # ps) =
     andThen (applySingle h p) (\<lambda>result.
     if \<not> success result then ret (Some result) else applyEach h ps)"

text \<open>
  \<^verbatim>\<open>apply\<close> (a keyword here, hence the longer name), for one payload (\<open>Inl\<close>) or an
  array of payloads (\<open>Inr\<close>).
\<close>

definition apply_payload ::
  "'w host \<Rightarrow> ApplyPayload + ApplyPayload list \<Rightarrow> ('w state, ApplyResult) eff" where
  "apply_payload h payload =
     (case payload of
        Inr payloads \<Rightarrow>
          andThen (applyEach h payloads) (\<lambda>failed.
          case failed of
            Some result \<Rightarrow> ret result
          | None \<Rightarrow>
              ret \<lparr>success = True, action = created,
                   message = Some (''Applied '' @ decimal (length payloads) @ '' files''),
                   changeId = None\<rparr>)
      | Inl p \<Rightarrow> applySingle h p)"

subsection \<open>The units of an array, one after another\<close>

text \<open>
  To state what \<open>apply_payload\<close> does with an array: the state after each payload of a
  list has been applied in order, each from the state its predecessor left, and whether
  each of them returned a result that succeeded.
\<close>

fun stateAfter :: "'w host \<Rightarrow> ApplyPayload list \<Rightarrow> 'w state \<Rightarrow> 'w state" where
  "stateAfter h [] s = s"
| "stateAfter h (p # ps) s = stateAfter h ps (snd (applySingle h p s))"

fun allSucceed :: "'w host \<Rightarrow> ApplyPayload list \<Rightarrow> 'w state \<Rightarrow> bool" where
  "allSucceed h [] s = True"
| "allSucceed h (p # ps) s =
     (case fst (applySingle h p s) of
        Inl e \<Rightarrow> False
      | Inr result \<Rightarrow> success result \<and> allSucceed h ps (snd (applySingle h p s)))"

section \<open>A host for examples\<close>

text \<open>
  A host that records the calls made to it and answers them from fixed settings: one
  editor at most (active and visible), one answer to every prompt, one outcome of every
  edit.
\<close>

datatype call =
    ShowQuickPick string
  | ShowOpenDialog string
  | ShowWarningMessage string "string list"
  | ShowInformationMessage string
  | ShowErrorMessage string
  | Stat string
  | CreateDirectory string
  | WriteFile string string
  | OpenTextDocument string
  | OpenUntitledDocument string languageId
  | ShowTextDocument string
  | CreateTerminal string
  | ShowTerminal string
  | SendText string string bool
  | EditDocument string editOp
  | RandomUUID
  | Diff string string string
  | CloseActiveEditor

record recorder =
  calls :: "call list"
  settings :: SmartApplyConfig
  shownEditor :: "TextEditor option"
  symbolIndex :: symbolProvider
  folders :: "string list option"
  terminalName :: "string option"
  files :: "string list"
  picked :: "pick option"
  button :: "string option"
  editOk :: bool
  clock :: nat

definition recorded :: "call \<Rightarrow> 'a \<Rightarrow> (recorder, 'a) eff" where
  "recorded c x = (\<lambda>w. (Inr x, w\<lparr>calls := calls w @ [c]\<rparr>))"

definition recordingHost :: "recorder host" where
  "recordingHost =
     \<lparr>getConfiguration = settings,
      activeTextEditor = shownEditor,
      visibleTextEditors = (\<lambda>w. case shownEditor w of None \<Rightarrow> [] | Some e \<Rightarrow> [e]),
      workspaceFolders = folders,
      activeTerminal = terminalName,
      executeDocumentSymbolProvider = (\<lambda>w u. symbolIndex w),
      now = clock,
      joinPath = (\<lambda>a b. a @ ''/'' @ b),
      basename = (\<lambda>p. rev (takeWhile (\<lambda>c. c \<noteq> CHR ''/'') (rev p))),
      showQuickPick = (\<lambda>m w. recorded (ShowQuickPick m) (picked w) w),
      showOpenDialog = (\<lambda>d w. recorded (ShowOpenDialog d) (folders w) w),
      showWarningMessage = (\<lambda>m bs w. recorded (ShowWarningMessage m bs) (button w) w),
      showInformationMessage = (\<lambda>m. recorded (ShowInformationMessage m) ()),
      showErrorMessage = (\<lambda>m. recorded (ShowErrorMessage m) ()),
      stat = (\<lambda>p w. (if p \<in> set (files w) then Inr () else Inl (HostError ''FileNotFound''),
                       w\<lparr>calls := calls w @ [Stat p]\<rparr>)),
      createDirectory = (\<lambda>p. recorded (CreateDirectory p) ()),
      writeFile = (\<lambda>p c w. (Inr (), w\<lparr>calls := calls w @ [WriteFile p c], files := p # files w\<rparr>)),
      openTextDocument = (\<lambda>p. recorded (OpenTextDocument p) (documentOf p [])),
      openUntitledDocument = (\<lambda>c l. recorded (OpenUntitledDocument c l) (documentOf [] c)),
      showTextDocument =
        (\<lambda>d. recorded (ShowTextDocument (uri d))
               \<lparr>document = d, active = \<lparr>line = 0, character = 0\<rparr>\<rparr>),
      createTerminal = (\<lambda>n. recorded (CreateTerminal n) n),
      showTerminal = (\<lambda>t. recorded (ShowTerminal t) ()),
      sendText = (\<lambda>t c e. recorded (SendText t c e) ()),
      edit = (\<lambda>e op w. recorded (EditDocument (uri (document e)) op) (editOk w) w),
      randomUUID =
        (\<lambda>w. (Inr (''change-'' @ decimal (clock w)),
               w\<lparr>calls := calls w @ [RandomUUID], clock := clock w + 1\<rparr>)),
      diff = (\<lambda>a b t. recorded (Diff a b t) ()),
      closeActiveEditor = recorded CloseActiveEditor ()\<rparr>"

text \<open>
  The default settings of the extension, an editor on a file \<^verbatim>\<open>/w/a.ts\<close> with the cursor
  at the start, a workspace \<^verbatim>\<open>/w\<close>, no symbols, prompts that are dismissed and edits that
  succeed; no change is pending.
\<close>

definition defaultSettings :: SmartApplyConfig where
  "defaultSettings =
     \<lparr>previewMode = edits_only, autoDetectIntent = True, createFileLocation = ask,
      showFallbackWarnings = True\<rparr>"

definition exampleWorld :: "string \<Rightarrow> recorder" where
  "exampleWorld text =
     \<lparr>calls = [], settings = defaultSettings,
      shownEditor = Some \<lparr>document = documentOf ''/w/a.ts'' text,
                          active = \<lparr>line = 0, character = 0\<rparr>\<rparr>,
      symbolIndex = Returns None, folders = Some [''/w''], terminalName = None, files = [],
      picked = None, button = None, editOk = True, clock = 0\<rparr>"

definition exampleState :: "string \<Rightarrow> recorder state" where
  "exampleState text = \<lparr>pendingChanges = Map.empty, world = exampleWorld text\<rparr>"

text \<open>
  Three payloads: a shell command; a file with a path header, whose creation asks where
  to put it; a one-line declaration labelled \<open>Create\<close> by its sender.
\<close>

definition commandPayload :: ApplyPayload where
  "commandPayload =
     \<lparr>code = ''$ ls'', language = ''bash'', intent = Command, target = None, anchor = None\<rparr>"

definition createPayload :: ApplyPayload where
  "createPayload =
     \<lparr>code = ''// b.ts'' @ [NL] @ ''x'', language = ''ts'', intent = Create, target = None,
      anchor = None\<rparr>"

definition snippetPayload :: ApplyPayload where
  "snippetPayload =
     \<lparr>code = ''let x = 1'', language = ''ts'', intent = Create, target = None, anchor = None\<rparr>"

text \<open>The state after a preview of an insertion has been shown in the example state.\<close>

definition previewedState :: "recorder state" where
  "previewedState =
     snd (showPreview recordingHost
            \<lparr>document = documentOf ''/w/a.ts'' ''let x = 0'', active = \<lparr>line = 0, character = 0\<rparr>\<rparr>
            \<lparr>line = 0, character = 0\<rparr> ''let y = 2'' None (exampleState ''let x = 0''))"

text \<open>The same host, with a command to close the active editor that fails.\<close>

definition closeFailingHost :: "recorder host" where
  "closeFailingHost =
     recordingHost
       \<lparr>closeActiveEditor :=
          (\<lambda>w. (Inl (HostError ''close failed''), w\<lparr>calls := calls w @ [CloseActiveEditor]\<rparr>))\<rparr>"

section \<open>Properties of the string operations\<close>

lemma split_nl_not_empty [simp]: "split_nl s \<noteq> []"
  by (induction s) (auto split: list.splits)

lemma join_split [simp]: "join_nl (split_nl s) = s"
proof (induction s)
  case Nil
  show ?case by simp
next
  case (Cons c s)
  obtain l ls where sp: "split_nl s = l # ls"
    by (cases "split_nl s") simp_all
  show ?case
  proof (cases "c = NL")
    case True
    with Cons sp show ?thesis by simp
  next
    case False
    with Cons sp show ?thesis by (cases ls) simp_all
  qed
qed

lemma split_nl_no_newline: "l \<in> set (split_nl s) \<Longrightarrow> NL \<notin> set l"
  by (induction s arbitrary: l) (auto split: list.splits if_splits)

lemma split_nl_append_line: "NL \<notin> set l \<Longrightarrow> split_nl (l @ NL # s) = l # split_nl s"
  by (induction l) (auto split: list.splits)

lemma split_nl_single: "NL \<notin> set l \<Longrightarrow> split_nl l = [l]"
  by (induction l) (auto split: list.splits)

lemma split_join:
  "ls \<noteq> [] \<Longrightarrow> \<forall>l\<in>set ls. NL \<notin> set l \<Longrightarrow> split_nl (join_nl ls) = ls"
  by (induction ls rule: join_nl.induct) (auto simp: split_nl_single split_nl_append_line)

lemma join_nl_mid:
  "join_nl (pre @ l # post) =
     join_nl (pre @ [[]]) @ l @ (if post = [] then [] else NL # join_nl post)"
proof (induction pre)
  case Nil
  show ?case by (cases post) simp_all
next
  case (Cons p pre)
  then show ?case by (cases pre) simp_all
qed

lemma join_nl_splice:
  assumes "i < length ls" "k \<le> length (ls ! i)"
  shows "join_nl (ls[i := take k (ls ! i) @ c @ drop k (ls ! i)]) =
         take (length (join_nl (take i ls @ [[]])) + k) (join_nl ls) @ c @
         drop (length (join_nl (take i ls @ [[]])) + k) (join_nl ls)"
proof -
  define l where "l = ls ! i"
  define A where "A = join_nl (take i ls @ [[]])"
  define R where "R = (if drop (Suc i) ls = [] then [] else NL # join_nl (drop (Suc i) ls))"
  have ls: "ls = take i ls @ l # drop (Suc i) ls"
    using assms(1) by (simp add: id_take_nth_drop l_def)
  have upd: "ls[i := take k l @ c @ drop k l] =
             take i ls @ (take k l @ c @ drop k l) # drop (Suc i) ls"
    using assms(1) by (simp add: upd_conv_take_nth_drop)
  have j1: "join_nl ls = A @ l @ R"
    unfolding A_def R_def by (subst ls) (rule join_nl_mid)
  have j2: "join_nl (ls[i := take k l @ c @ drop k l]) = A @ (take k l @ c @ drop k l) @ R"
    unfolding A_def R_def upd by (rule join_nl_mid)
  have "k \<le> length l" using assms(2) by (simp add: l_def)
  then have "take (length A + k) (A @ l @ R) = A @ take k l"
    and "drop (length A + k) (A @ l @ R) = drop k l @ R"
    by simp_all
  then show ?thesis
    using j1 j2 by (simp add: A_def l_def)
qed

section \<open>The proposed content of an insertion\<close>

text \<open>
  Claim C5, as the code has it. For a position that lies in the original text (its line
  is one of the text's lines, its character at most the length of that line) and new code
  without a line break, the proposed content of an insertion (no range) is the original
  with the new code spliced in at the offset of the position, and deleting as many
  characters as were inserted, at the same position, gives the original text back.
\<close>

theorem insertion_round_trip:
  assumes "line pos < length (split_nl text)"
    and "character pos \<le> length (split_nl text ! line pos)"
    and "NL \<notin> set ins"
  shows "\<exists>p. generateProposedContent text pos ins None = Inr p \<and>
             p = take (offsetAt text pos) text @ ins @ drop (offsetAt text pos) text \<and>
             removeAt p pos (length ins) = text"
proof -
  let ?ls = "split_nl text"
  let ?l = "?ls ! line pos"
  let ?new = "take (character pos) ?l @ ins @ drop (character pos) ?l"
  let ?p = "join_nl (?ls[line pos := ?new])"
  have g: "generateProposedContent text pos ins None = Inr ?p"
    using assms(1) by (simp add: generateProposedContent_def Let_def)
  have splice: "?p = take (offsetAt text pos) text @ ins @ drop (offsetAt text pos) text"
    using join_nl_splice[OF assms(1,2), of ins] by (simp add: offsetAt_def)
  have nonl: "\<forall>l\<in>set (?ls[line pos := ?new]). NL \<notin> set l"
  proof
    fix l assume "l \<in> set (?ls[line pos := ?new])"
    then have "l = ?new \<or> l \<in> set ?ls"
      by (meson insertE set_update_subset_insert subsetD)
    moreover have "NL \<notin> set ?l"
      using assms(1) split_nl_no_newline nth_mem by blast
    then have "NL \<notin> set ?new"
      using assms(3) by (auto dest: in_set_takeD in_set_dropD)
    ultimately show "NL \<notin> set l"
      using split_nl_no_newline by blast
  qed
  have sp: "split_nl ?p = ?ls[line pos := ?new]"
    by (rule split_join) (use nonl in simp_all)
  have "removeAt ?p pos (length ins) = join_nl (?ls[line pos := ?l])"
    using assms(1,2) by (simp add: removeAt_def sp Let_def min_def)
  then have "removeAt ?p pos (length ins) = text" by simp
  with g splice show ?thesis by simp
qed

text \<open>The round trip on the second line of a two-line text.\<close>

theorem insertion_round_trip_witness:
  "\<exists>p. generateProposedContent (''ab'' @ [NL] @ ''cd'') \<lparr>line = 1, character = 1\<rparr> ''xy'' None
         = Inr p \<and>
       p = ''ab'' @ [NL] @ ''cxyd'' \<and>
       removeAt p \<lparr>line = 1, character = 1\<rparr> 2 = ''ab'' @ [NL] @ ''cd''"
  using insertion_round_trip[of "\<lparr>line = 1, character = 1\<rparr>" "''ab'' @ [NL] @ ''cd''" "''xy''"]
  by (simp add: offsetAt_def generateProposedContent_def removeAt_def)

text \<open>
  A position on the line after the last one (where the import-section locator points when
  the last line of the text is an import) takes the branch that appends a line break and
  the code: deleting the code there leaves the line break behind.
\<close>

theorem insertion_round_trip_counterexample:
  "generateProposedContent ''import a'' \<lparr>line = 1, character = 0\<rparr> ''import b'' None
     = Inr (''import a'' @ [NL] @ ''import b'') \<and>
   removeAt (''import a'' @ [NL] @ ''import b'') \<lparr>line = 1, character = 0\<rparr> (length ''import b'')
     \<noteq> ''import a''"
  by (simp add: generateProposedContent_def removeAt_def)

section \<open>The confidence of a detected intent\<close>

lemma detectCommand_values:
  "DetectedIntent.intent (detectCommand src) = Command \<and>
   confidence (detectCommand src) \<in> {0.95, 0.9, 0.85, 0.4, 0}"
  by (simp add: detectCommand_def Let_def commandWith_def)

lemma detectFileCreation_values:
  "DetectedIntent.intent (detectFileCreation src lang) = Create \<and>
   confidence (detectFileCreation src lang) \<in> {0.95, 0.9, 0.85, 0.7, 0}"
  by (simp add: detectFileCreation_def Let_def createWith_def)

lemma detectEdit_values:
  "DetectedIntent.intent (detectEdit src lang activeFile) = Edit \<and>
   confidence (detectEdit src lang activeFile) \<in> {0.85, 0.7, 0.6, 0.5, 0}"
  by (simp add: detectEdit_def Let_def editWith_def)

text \<open>
  Claim C9. Every intent \<open>detect\<close> returns has a confidence between 0 and 1, and one
  with intent \<open>Command\<close> has a confidence of at least 0.85: the command stage is returned
  only above 0.8, which leaves out its weak signal 0.4, and the later stages and the
  fallback return \<open>Create\<close> or \<open>Edit\<close>.
\<close>

theorem detect_confidence:
  "0 \<le> confidence (detect src lang activeFile) \<and>
   confidence (detect src lang activeFile) \<le> 1 \<and>
   (DetectedIntent.intent (detect src lang activeFile) = Command \<longrightarrow>
      0.85 \<le> confidence (detect src lang activeFile))"
proof -
  note c = detectCommand_values[of src]
  note k = detectFileCreation_values[of src lang]
  note e = detectEdit_values[of src lang activeFile]
  show ?thesis
  proof (cases "confidence (detectCommand src) > 0.8")
    case True
    then have "detect src lang activeFile = detectCommand src"
      by (simp add: detect_def)
    with c True show ?thesis by auto
  next
    case nc: False
    show ?thesis
    proof (cases "confidence (detectFileCreation src lang) > 0.7")
      case True
      then have "detect src lang activeFile = detectFileCreation src lang"
        using nc by (simp add: detect_def)
      with k True show ?thesis by auto
    next
      case nk: False
      show ?thesis
      proof (cases "confidence (detectEdit src lang activeFile) > 0.5")
        case True
        then have "detect src lang activeFile = detectEdit src lang activeFile"
          using nc nk by (simp add: detect_def)
        with e True show ?thesis by auto
      next
        case False
        then show ?thesis
          using nc nk by (simp add: detect_def)
      qed
    qed
  qed
qed

text \<open>A shell prompt line is a command, with confidence 0.95.\<close>

theorem detect_confidence_witness:
  "DetectedIntent.intent (detect ''$ npm install left-pad'' ''bash'' None) = Command \<and>
   0.85 \<le> confidence (detect ''$ npm install left-pad'' ''bash'' None)"
proof -
  have i: "DetectedIntent.intent (detect ''$ npm install left-pad'' ''bash'' None) = Command"
    by code_simp
  with detect_confidence[of "''$ npm install left-pad''" "''bash''" None] show ?thesis
    by blast
qed

section \<open>Resolving an anchor\<close>

lemma findSymbol_None_iff:
  "findSymbol syms nm mode = None \<longleftrightarrow>
     (\<forall>s\<in>set (allSymbols syms). \<not> symbolMatches mode (toLowerCase (name s)) (toLowerCase nm))"
  by (induction syms nm mode rule: findSymbol.induct) (auto split: option.splits)

lemma find_append_first: "find P (xs @ ys) = (case find P xs of None \<Rightarrow> find P ys | Some x \<Rightarrow> Some x)"
  by (induction xs) auto

lemma findSymbol_find:
  "findSymbol syms nm mode =
     find (\<lambda>s. symbolMatches mode (toLowerCase (name s)) (toLowerCase nm)) (allSymbols syms)"
  by (induction syms nm mode rule: findSymbol.induct) (auto simp: find_append_first split: option.splits)

text \<open>
  Claim C1, as the code has it. The fuzzy stage accepts a symbol whose name contains the
  anchor before it looks at the edit distance. So in a symbol tree that has the symbol
  \<open>formatDateTime\<close> and no symbol named \<open>formatDate\<close> in any case, the exact stage fails for
  the anchor \<open>formatDate\<close> and the fuzzy stage succeeds: it returns the first symbol, in the
  order the search visits the tree (a symbol, then its children, then the symbols after
  it), whose name matches fuzzily, which is \<open>formatDateTime\<close> or a symbol visited before
  it. The result has the method \<open>fuzzy_symbol\<close> and the position, range and name of that
  symbol, and the text search is not reached.
\<close>

theorem formatDate_fuzzy_symbol:
  assumes "\<exists>s\<in>set (allSymbols syms). name s = ''formatDateTime''"
    and "\<forall>s\<in>set (allSymbols syms). toLowerCase (name s) \<noteq> ''formatdate''"
  shows "findSymbol syms ''formatDate'' exact = None \<and>
         (\<exists>m. find (\<lambda>s. symbolMatches fuzzy (toLowerCase (name s)) ''formatdate'')
                   (allSymbols syms) = Some m \<and>
              findSymbol syms ''formatDate'' fuzzy = Some m \<and>
              resolveAnchor doc (Returns (Some syms)) (Some ''formatDate'') cursorPosition =
                \<lparr>ResolvedPosition.position = start (symbolRange m),
                 ResolvedPosition.range = Some (symbolRange m),
                 method = fuzzy_symbol, symbolName = Some (name m)\<rparr>)"
proof -
  have low: "toLowerCase ''formatDate'' = ''formatdate''" by code_simp
  have ex: "findSymbol syms ''formatDate'' exact = None"
    using assms(2) by (simp add: findSymbol_None_iff symbolMatches_def low)
  have inc: "str_includes (toLowerCase ''formatDateTime'') ''formatdate''" by code_simp
  obtain s where s: "s \<in> set (allSymbols syms)" "name s = ''formatDateTime''"
    using assms(1) by blast
  have "symbolMatches fuzzy (toLowerCase (name s)) (toLowerCase ''formatDate'')"
    using inc by (simp add: symbolMatches_def low s(2))
  with s(1) have "\<exists>s\<in>set (allSymbols syms).
      symbolMatches fuzzy (toLowerCase (name s)) (toLowerCase ''formatDate'')"
    by blast
  then have "findSymbol syms ''formatDate'' fuzzy \<noteq> None"
    by (simp add: findSymbol_None_iff)
  then obtain m where m: "findSymbol syms ''formatDate'' fuzzy = Some m" by blast
  then have fm: "find (\<lambda>s. symbolMatches fuzzy (toLowerCase (name s)) ''formatdate'')
                   (allSymbols syms) = Some m"
    by (simp add: findSymbol_find low)
  have ne: "syms \<noteq> []" using assms(1) by auto
  have "truthy (Some ''formatDate'')" by (simp add: truthy_def)
  moreover have "toLowerCase ''formatDate'' \<noteq> ''imports''" by (simp add: low)
  ultimately have
    "resolveAnchor doc (Returns (Some syms)) (Some ''formatDate'') cursorPosition =
       \<lparr>ResolvedPosition.position = start (symbolRange m),
        ResolvedPosition.range = Some (symbolRange m),
        method = fuzzy_symbol, symbolName = Some (name m)\<rparr>"
    using ex m ne by (simp add: resolveAnchor_def getDocumentSymbols_def)
  with ex m fm show ?thesis by blast
qed

text \<open>
  The symbol \<open>formatDateTime\<close> as a child of a class \<open>Clock\<close>, which does not match: the
  result is the child.
\<close>

theorem formatDate_fuzzy_symbol_witness:
  "findSymbol
     [DocumentSymbol ''Clock''
        \<lparr>start = \<lparr>line = 0, character = 0\<rparr>, end_pos = \<lparr>line = 9, character = 1\<rparr>\<rparr>
        [DocumentSymbol ''formatDateTime''
           \<lparr>start = \<lparr>line = 2, character = 2\<rparr>, end_pos = \<lparr>line = 4, character = 3\<rparr>\<rparr> []]]
     ''formatDate'' exact = None \<and>
   findSymbol
     [DocumentSymbol ''Clock''
        \<lparr>start = \<lparr>line = 0, character = 0\<rparr>, end_pos = \<lparr>line = 9, character = 1\<rparr>\<rparr>
        [DocumentSymbol ''formatDateTime''
           \<lparr>start = \<lparr>line = 2, character = 2\<rparr>, end_pos = \<lparr>line = 4, character = 3\<rparr>\<rparr> []]]
     ''formatDate'' fuzzy =
     Some (DocumentSymbol ''formatDateTime''
             \<lparr>start = \<lparr>line = 2, character = 2\<rparr>, end_pos = \<lparr>line = 4, character = 3\<rparr>\<rparr> []) \<and>
   resolveAnchor (documentOf ''/w/clock.ts'' ''class Clock {}'')
     (Returns (Some
       [DocumentSymbol ''Clock''
          \<lparr>start = \<lparr>line = 0, character = 0\<rparr>, end_pos = \<lparr>line = 9, character = 1\<rparr>\<rparr>
          [DocumentSymbol ''formatDateTime''
             \<lparr>start = \<lparr>line = 2, character = 2\<rparr>, end_pos = \<lparr>line = 4, character = 3\<rparr>\<rparr> []]]))
     (Some ''formatDate'') \<lparr>line = 0, character = 0\<rparr> =
     \<lparr>ResolvedPosition.position = \<lparr>line = 2, character = 2\<rparr>,
      ResolvedPosition.range =
        Some \<lparr>start = \<lparr>line = 2, character = 2\<rparr>, end_pos = \<lparr>line = 4, character = 3\<rparr>\<rparr>,
      method = fuzzy_symbol, symbolName = Some ''formatDateTime''\<rparr>"
proof -
  let ?child = "DocumentSymbol ''formatDateTime''
           \<lparr>start = \<lparr>line = 2, character = 2\<rparr>, end_pos = \<lparr>line = 4, character = 3\<rparr>\<rparr> []"
  let ?syms = "[DocumentSymbol ''Clock''
        \<lparr>start = \<lparr>line = 0, character = 0\<rparr>, end_pos = \<lparr>line = 9, character = 1\<rparr>\<rparr> [?child]]"
  have 1: "\<exists>s\<in>set (allSymbols ?syms). name s = ''formatDateTime''"
    by simp
  have "toLowerCase ''Clock'' \<noteq> ''formatdate''" "toLowerCase ''formatDateTime'' \<noteq> ''formatdate''"
    by code_simp+
  then have 2: "\<forall>s\<in>set (allSymbols ?syms). toLowerCase (name s) \<noteq> ''formatdate''"
    by simp
  have f: "find (\<lambda>s. symbolMatches fuzzy (toLowerCase (name s)) ''formatdate'')
             (allSymbols ?syms) = Some ?child"
    by code_simp
  from formatDate_fuzzy_symbol[OF 1 2, of "documentOf ''/w/clock.ts'' ''class Clock {}''"
         "\<lparr>line = 0, character = 0\<rparr>"] f
  show ?thesis by auto
qed

text \<open>
  The scenario of the claim: the only symbol is \<open>formatDateTime\<close>, at edit distance 4 from
  the anchor, and the text of the doc does not contain \<open>formatDate\<close>. The fuzzy stage
  finds the symbol, and the result is not the cursor fallback.
\<close>

theorem formatDate_fuzzy_symbol_counterexample:
  "levenshteinDistance (toLowerCase ''formatDateTime'') (toLowerCase ''formatDate'') = 4 \<and>
   indexOf (toLowerCase ''const other = 1'') (toLowerCase ''formatDate'') = None \<and>
   findSymbol
     [DocumentSymbol ''formatDateTime''
        \<lparr>start = \<lparr>line = 2, character = 2\<rparr>, end_pos = \<lparr>line = 4, character = 3\<rparr>\<rparr> []]
     ''formatDate'' fuzzy =
     Some (DocumentSymbol ''formatDateTime''
        \<lparr>start = \<lparr>line = 2, character = 2\<rparr>, end_pos = \<lparr>line = 4, character = 3\<rparr>\<rparr> []) \<and>
   resolveAnchor (documentOf ''/w/other.ts'' ''const other = 1'')
     (Returns (Some
       [DocumentSymbol ''formatDateTime''
          \<lparr>start = \<lparr>line = 2, character = 2\<rparr>, end_pos = \<lparr>line = 4, character = 3\<rparr>\<rparr> []]))
     (Some ''formatDate'') \<lparr>line = 0, character = 5\<rparr> =
     \<lparr>ResolvedPosition.position = \<lparr>line = 2, character = 2\<rparr>,
      ResolvedPosition.range =
        Some \<lparr>start = \<lparr>line = 2, character = 2\<rparr>, end_pos = \<lparr>line = 4, character = 3\<rparr>\<rparr>,
      method = fuzzy_symbol, symbolName = Some ''formatDateTime''\<rparr>"
  by code_simp









text \<open>
  Claim C6, as the code has it. For an anchor other than \<open>imports\<close> (in any case) that
  neither symbol stage finds among the symbols the provider returns and that the text
  search does not find, \<open>resolveAnchor\<close> returns the cursor position with the method
  \<open>cursor_fallback\<close>. A provider that throws, or returns nothing or no symbols, leaves the
  symbol stages without a match: \<open>getDocumentSymbols\<close> turns the exception into
  \<^verbatim>\<open>undefined\<close>. No step of \<open>resolveAnchor\<close> raises.
\<close>

theorem unresolved_anchor_cursor_fallback:
  assumes "toLowerCase a \<noteq> ''imports''"
    and "\<forall>syms. getDocumentSymbols provider = Some syms \<longrightarrow>
           findSymbol syms a exact = None \<and> findSymbol syms a fuzzy = None"
    and "findTextMatch doc a = None"
  shows "resolveAnchor doc provider (Some a) cursorPosition =
           \<lparr>ResolvedPosition.position = cursorPosition, ResolvedPosition.range = None,
            method = cursor_fallback, symbolName = None\<rparr>"
  using assms by (auto simp: resolveAnchor_def Let_def split: option.splits)

theorem unresolved_anchor_cursor_fallback_witness:
  "resolveAnchor (documentOf ''/w/a.ts'' ''let x = 1'')
     (Returns (Some [DocumentSymbol ''alphabet''
        \<lparr>start = \<lparr>line = 0, character = 0\<rparr>, end_pos = \<lparr>line = 0, character = 9\<rparr>\<rparr> []]))
     (Some ''zz'') \<lparr>line = 0, character = 4\<rparr> =
   \<lparr>ResolvedPosition.position = \<lparr>line = 0, character = 4\<rparr>, ResolvedPosition.range = None,
    method = cursor_fallback, symbolName = None\<rparr>"
proof -
  let ?syms = "[DocumentSymbol ''alphabet''
        \<lparr>start = \<lparr>line = 0, character = 0\<rparr>, end_pos = \<lparr>line = 0, character = 9\<rparr>\<rparr> []]"
  have 1: "toLowerCase ''zz'' \<noteq> ''imports''" by code_simp
  have e: "findSymbol ?syms ''zz'' exact = None" by code_simp
  have f: "findSymbol ?syms ''zz'' fuzzy = None" by code_simp
  have 2: "\<forall>syms. getDocumentSymbols (Returns (Some ?syms)) = Some syms \<longrightarrow>
           findSymbol syms ''zz'' exact = None \<and> findSymbol syms ''zz'' fuzzy = None"
    using e f by (simp add: getDocumentSymbols_def)
  have 3: "findTextMatch (documentOf ''/w/a.ts'' ''let x = 1'') ''zz'' = None" by code_simp
  show ?thesis
    by (rule unresolved_anchor_cursor_fallback[OF 1 2 3])
qed

text \<open>
  The anchor \<open>imports\<close> in a doc without the word: no symbol matches, the text
  search finds nothing, and the result is the start of the first line with the method
  \<open>text_search\<close>, not the cursor position.
\<close>

theorem unresolved_anchor_cursor_fallback_counterexample:
  "findSymbol
     [DocumentSymbol ''main''
        \<lparr>start = \<lparr>line = 0, character = 0\<rparr>, end_pos = \<lparr>line = 0, character = 9\<rparr>\<rparr> []]
     ''imports'' exact = None \<and>
   findSymbol
     [DocumentSymbol ''main''
        \<lparr>start = \<lparr>line = 0, character = 0\<rparr>, end_pos = \<lparr>line = 0, character = 9\<rparr>\<rparr> []]
     ''imports'' fuzzy = None \<and>
   findTextMatch (documentOf ''/w/main.c'' ''main() {}'') ''imports'' = None \<and>
   resolveAnchor (documentOf ''/w/main.c'' ''main() {}'')
     (Returns (Some [DocumentSymbol ''main''
        \<lparr>start = \<lparr>line = 0, character = 0\<rparr>, end_pos = \<lparr>line = 0, character = 9\<rparr>\<rparr> []]))
     (Some ''imports'') \<lparr>line = 0, character = 4\<rparr> =
   \<lparr>ResolvedPosition.position = \<lparr>line = 0, character = 0\<rparr>, ResolvedPosition.range = None,
    method = text_search, symbolName = None\<rparr>"
  by code_simp

section \<open>Arrays of payloads\<close>

lemma decimal_value: "foldl (\<lambda>v c. 10 * v + (of_char c - 48)) 0 (decimal n) = n"
proof (induction n rule: decimal.induct)
  case (1 n)
  show ?case
  proof (cases "n < 10")
    case True
    then show ?thesis by (subst decimal.simps) simp
  next
    case False
    have "n mod 10 < 10" by simp
    then have m: "(48 + n mod 10) mod 256 = 48 + n mod 10" by simp
    from False 1 show ?thesis
      by (subst decimal.simps) (simp add: m)
  qed
qed

lemma stateAfter_append: "stateAfter h (ps @ qs) s = stateAfter h qs (stateAfter h ps s)"
  by (induction ps arbitrary: s) simp_all

lemma applyEach_all:
  "allSucceed h ps s \<Longrightarrow> applyEach h ps s = (Inr None, stateAfter h ps s)"
proof (induction ps arbitrary: s)
  case Nil
  show ?case by (simp add: ret_def)
next
  case (Cons p ps)
  obtain x s1 where ap: "applySingle h p s = (x, s1)" by (cases "applySingle h p s")
  with Cons.prems obtain r where r: "x = Inr r" "ApplyResult.success r" "allSucceed h ps s1"
    by (auto split: sum.splits)
  from Cons.IH[OF r(3)] ap r show ?case
    by (simp add: andThen_def)
qed

lemma applyEach_fail:
  assumes "allSucceed h ps1 s"
    and "fst (applySingle h p (stateAfter h ps1 s)) = Inr r"
    and "\<not> ApplyResult.success r"
  shows "applyEach h (ps1 @ p # ps2) s = (Inr (Some r), stateAfter h (ps1 @ [p]) s)"
  using assms
proof (induction ps1 arbitrary: s)
  case Nil
  obtain x s1 where ap: "applySingle h p s = (x, s1)" by (cases "applySingle h p s")
  with Nil show ?case by (simp add: andThen_def ret_def)
next
  case (Cons q ps1)
  obtain x s1 where ap: "applySingle h q s = (x, s1)" by (cases "applySingle h q s")
  with Cons.prems(1) obtain r' where r: "x = Inr r'" "ApplyResult.success r'" "allSucceed h ps1 s1"
    by (auto split: sum.splits)
  have "applyEach h (ps1 @ p # ps2) s1 = (Inr (Some r), stateAfter h (ps1 @ [p]) s1)"
    using Cons.IH[OF r(3)] Cons.prems(2,3) ap by simp
  with ap r show ?case by (simp add: andThen_def)
qed

text \<open>
  Claim C3. The units of an array are applied in the order of the array, each from the
  state its predecessor left. When the units before a unit all return a result that
  succeeds and that unit returns one that does not, \<open>apply_payload\<close> returns that result
  and the state is the one that unit left: the units after it are not applied, whatever
  they are. When every unit of the array returns a result that succeeds,
  \<open>apply_payload\<close> returns the result \<open>created\<close> with the message that counts the
  units of the array, in the state the last unit left.
\<close>

theorem apply_array_in_order:
  "(allSucceed h ps1 s \<and> fst (applySingle h p (stateAfter h ps1 s)) = Inr r \<and>
    \<not> ApplyResult.success r \<longrightarrow>
      apply_payload h (Inr (ps1 @ p # ps2)) s = (Inr r, stateAfter h (ps1 @ [p]) s)) \<and>
   (allSucceed h ps s \<longrightarrow>
      apply_payload h (Inr ps) s =
        (Inr \<lparr>ApplyResult.success = True, action = created,
              message = Some (''Applied '' @ decimal (length ps) @ '' files''),
              changeId = None\<rparr>,
         stateAfter h ps s))"
  by (simp add: apply_payload_def andThen_def ret_def applyEach_all applyEach_fail)

text \<open>
  A command, a file creation whose prompt is dismissed, and a command again: the result
  is the cancellation, and the host has seen the terminal calls of the first unit and
  the prompt of the second only. Two commands succeed.
\<close>

theorem apply_array_in_order_witness:
  "fst (apply_payload recordingHost (Inr [commandPayload, createPayload, commandPayload])
          (exampleState [])) = Inr cancelledResult \<and>
   calls (world (snd (apply_payload recordingHost
                        (Inr [commandPayload, createPayload, commandPayload])
                        (exampleState [])))) =
     [CreateTerminal ''Mistral'', ShowTerminal ''Mistral'', SendText ''Mistral'' ''ls'' False,
      ShowQuickPick ''Where to create b.ts?''] \<and>
   fst (apply_payload recordingHost (Inr [commandPayload, commandPayload]) (exampleState [])) =
     Inr \<lparr>ApplyResult.success = True, action = created, message = Some ''Applied 2 files'',
          changeId = None\<rparr>"
proof -
  let ?s = "exampleState []"
  have a: "allSucceed recordingHost [commandPayload] ?s" by code_simp
  have b: "fst (applySingle recordingHost createPayload (stateAfter recordingHost [commandPayload] ?s))
             = Inr cancelledResult" by code_simp
  have c: "\<not> ApplyResult.success cancelledResult" by (simp add: cancelledResult_def)
  have d: "allSucceed recordingHost [commandPayload, commandPayload] ?s" by code_simp
  have e: "calls (world (stateAfter recordingHost ([commandPayload] @ [createPayload]) ?s)) =
     [CreateTerminal ''Mistral'', ShowTerminal ''Mistral'', SendText ''Mistral'' ''ls'' False,
      ShowQuickPick ''Where to create b.ts?'']" by code_simp
  have f: "decimal (length [commandPayload, commandPayload]) = ''2''" by code_simp
  from apply_array_in_order[of recordingHost "[commandPayload]" ?s createPayload cancelledResult
         "[commandPayload]" "[commandPayload, commandPayload]"] a b c d
  have 1: "apply_payload recordingHost (Inr ([commandPayload] @ createPayload # [commandPayload])) ?s =
             (Inr cancelledResult, stateAfter recordingHost ([commandPayload] @ [createPayload]) ?s)"
    and 2: "apply_payload recordingHost (Inr [commandPayload, commandPayload]) ?s =
        (Inr \<lparr>ApplyResult.success = True, action = created,
              message = Some (''Applied '' @ decimal (length [commandPayload, commandPayload]) @ '' files''),
              changeId = None\<rparr>,
         stateAfter recordingHost [commandPayload, commandPayload] ?s)"
    by blast+
  from 1 e have "fst (apply_payload recordingHost (Inr [commandPayload, createPayload, commandPayload]) ?s) = Inr cancelledResult"
    and "calls (world (snd (apply_payload recordingHost
                        (Inr [commandPayload, createPayload, commandPayload]) ?s))) =
     [CreateTerminal ''Mistral'', ShowTerminal ''Mistral'', SendText ''Mistral'' ''ls'' False,
      ShowQuickPick ''Where to create b.ts?'']"
    by simp_all
  moreover from 2 f have "fst (apply_payload recordingHost (Inr [commandPayload, commandPayload]) ?s) =
     Inr \<lparr>ApplyResult.success = True, action = created, message = Some ''Applied 2 files'',
          changeId = None\<rparr>"
    by simp
  ultimately show ?thesis by blast
qed

section \<open>Accepting and rejecting a change that is not pending\<close>

lemma accept_not_found:
  assumes "pendingChanges s cid = None"
  shows "acceptChange h cid s =
           (Inr False, s\<lparr>world := snd (showWarningMessage h ''Change not found or expired.'' [] (world s))\<rparr>)"
  using assms
  by (simp add: acceptChange_def andThen_def reads_def unawaited_def hostCall_def ret_def
           split: prod.splits)

lemma reject_not_found:
  assumes "pendingChanges s cid = None"
  shows "rejectChange h cid s = (Inr (), s)"
  using assms by (simp add: rejectChange_def andThen_def reads_def ret_def)

lemma accept_true_deletes_aux:
  assumes "acceptChange h cid s = (Inr True, s')"
  shows "pendingChanges s' cid = None"
  using assms
  by (auto simp: acceptChange_def andThen_def reads_def unawaited_def hostCall_def ret_def
        tryCatch_def hostRead_def applyChange_def
        split: prod.splits option.splits sum.splits if_splits)

lemma accept_true_deletes:
  assumes "fst (acceptChange h cid s) = Inr True"
  shows "pendingChanges (snd (acceptChange h cid s)) cid = None"
proof -
  from assms have "acceptChange h cid s = (Inr True, snd (acceptChange h cid s))"
    by (cases "acceptChange h cid s") simp
  then show ?thesis by (rule accept_true_deletes_aux)
qed

lemma reject_deletes_aux:
  assumes "rejectChange h cid s = (r, s')"
  shows "pendingChanges s' cid = None"
  using assms
  by (auto simp: rejectChange_def andThen_def reads_def unawaited_def hostCall_def ret_def
        split: prod.splits option.splits sum.splits if_splits)

lemma reject_deletes: "pendingChanges (snd (rejectChange h cid s)) cid = None"
  by (cases "rejectChange h cid s") (simp add: reject_deletes_aux)

lemma tryCatch_returns:
  assumes "\<And>e s'. \<exists>x. fst (handler e s') = Inr x"
  shows "\<exists>x. fst (tryCatch m handler s) = Inr x"
  using assms by (cases "m s") (auto simp: tryCatch_def split: sum.splits)

lemma accept_never_throws: "\<exists>b. fst (acceptChange h cid s) = Inr b"
proof (cases "pendingChanges s cid")
  case None
  then show ?thesis
    by (auto simp: acceptChange_def andThen_def reads_def unawaited_def ret_def)
next
  case (Some change)
  show ?thesis
    unfolding acceptChange_def
    apply (subst andThen_def)
    apply (simp add: reads_def Some)
    apply (rule tryCatch_returns)
    apply (auto simp: andThen_def unawaited_def ret_def)
    done
qed

text \<open>
  What holds of the two operations. With an id that is not pending, \<open>acceptChange\<close>
  returns \<open>False\<close> without raising; the map of pending changes is as before, and the one
  call it makes to the host is the warning that the change was not found: no document is
  opened or edited. \<open>rejectChange\<close> with such an id returns without raising and leaves
  the whole state as it was. An id is not pending any more after \<open>acceptChange\<close> has
  returned \<open>True\<close> for it, and after \<open>rejectChange\<close> has been called with it: so a
  second \<open>acceptChange\<close> returns \<open>False\<close> in that way, and a second \<open>rejectChange\<close>
  changes nothing. \<open>acceptChange\<close> raises in no state at all: what its host calls throw
  is caught.
\<close>

lemma change_not_found_is_no_op:
  "(pendingChanges s cid = None \<longrightarrow>
      acceptChange h cid s =
        (Inr False,
         s\<lparr>world := snd (showWarningMessage h ''Change not found or expired.'' [] (world s))\<rparr>) \<and>
      rejectChange h cid s = (Inr (), s)) \<and>
   (fst (acceptChange h cid s) = Inr True \<longrightarrow>
      (let s' = snd (acceptChange h cid s) in
       acceptChange h cid s' =
         (Inr False,
          s'\<lparr>world := snd (showWarningMessage h ''Change not found or expired.'' [] (world s'))\<rparr>))) \<and>
   (let s' = snd (rejectChange h cid s) in rejectChange h cid s' = (Inr (), s')) \<and>
   (\<exists>b. fst (acceptChange h cid s) = Inr b)"
proof -
  have 1: "pendingChanges s cid = None \<longrightarrow>
      acceptChange h cid s =
        (Inr False,
         s\<lparr>world := snd (showWarningMessage h ''Change not found or expired.'' [] (world s))\<rparr>) \<and>
      rejectChange h cid s = (Inr (), s)"
    by (simp add: accept_not_found reject_not_found)
  have 2: "fst (acceptChange h cid s) = Inr True \<longrightarrow>
      (let s' = snd (acceptChange h cid s) in
       acceptChange h cid s' =
         (Inr False,
          s'\<lparr>world := snd (showWarningMessage h ''Change not found or expired.'' [] (world s'))\<rparr>))"
    unfolding Let_def using accept_true_deletes[of h cid s] accept_not_found by blast
  have 3: "let s' = snd (rejectChange h cid s) in rejectChange h cid s' = (Inr (), s')"
    unfolding Let_def using reject_deletes[of h cid s] reject_not_found by blast
  from 1 2 3 accept_never_throws[of h cid s] show ?thesis by blast
qed

text \<open>
  An id that was never pending, and the id of a previewed change that is accepted twice:
  the host sees one edit, and the warning at the second call.
\<close>

lemma change_not_found_twice:
  "acceptChange recordingHost ''change-7'' (exampleState []) =
     (Inr False,
      (exampleState [])\<lparr>world := snd (showWarningMessage recordingHost
                                           ''Change not found or expired.'' []
                                           (world (exampleState [])))\<rparr>) \<and>
   rejectChange recordingHost ''change-7'' (exampleState []) = (Inr (), exampleState []) \<and>
   fst (acceptChange recordingHost ''change-0'' previewedState) = Inr True \<and>
   fst (acceptChange recordingHost ''change-0''
          (snd (acceptChange recordingHost ''change-0'' previewedState))) = Inr False \<and>
   calls (world (snd (acceptChange recordingHost ''change-0''
                        (snd (acceptChange recordingHost ''change-0'' previewedState))))) =
     [RandomUUID,
      Diff ''/w/a.ts'' ''mistral-preview:a.ts?change-0'' ''Preview Changes: a.ts'',
      EditDocument ''/w/a.ts'' (Insert \<lparr>line = 0, character = 0\<rparr> ''let y = 2''),
      CloseActiveEditor,
      ShowInformationMessage ''Changes applied successfully.'',
      ShowWarningMessage ''Change not found or expired.'' []]"
proof -
  have n: "pendingChanges (exampleState []) ''change-7'' = None"
    by (simp add: exampleState_def)
  have t: "fst (acceptChange recordingHost ''change-0'' previewedState) = Inr True"
    by code_simp
  let ?s' = "snd (acceptChange recordingHost ''change-0'' previewedState)"
  have c: "calls (snd (showWarningMessage recordingHost ''Change not found or expired.'' [] (world ?s'))) =
     [RandomUUID,
      Diff ''/w/a.ts'' ''mistral-preview:a.ts?change-0'' ''Preview Changes: a.ts'',
      EditDocument ''/w/a.ts'' (Insert \<lparr>line = 0, character = 0\<rparr> ''let y = 2''),
      CloseActiveEditor,
      ShowInformationMessage ''Changes applied successfully.'',
      ShowWarningMessage ''Change not found or expired.'' []]"
    by code_simp
  from change_not_found_is_no_op[of "exampleState []" "''change-7''" recordingHost] n
  have 1: "acceptChange recordingHost ''change-7'' (exampleState []) =
     (Inr False,
      (exampleState [])\<lparr>world := snd (showWarningMessage recordingHost
                                           ''Change not found or expired.'' []
                                           (world (exampleState [])))\<rparr>)"
    and 2: "rejectChange recordingHost ''change-7'' (exampleState []) = (Inr (), exampleState [])"
    by blast+
  from change_not_found_is_no_op[of previewedState "''change-0''" recordingHost] t
  have 3: "acceptChange recordingHost ''change-0'' ?s' =
         (Inr False,
          ?s'\<lparr>world := snd (showWarningMessage recordingHost ''Change not found or expired.'' [] (world ?s'))\<rparr>)"
    by (simp add: Let_def)
  from 3 c have "fst (acceptChange recordingHost ''change-0'' ?s') = Inr False"
    and "calls (world (snd (acceptChange recordingHost ''change-0'' ?s'))) =
     [RandomUUID,
      Diff ''/w/a.ts'' ''mistral-preview:a.ts?change-0'' ''Preview Changes: a.ts'',
      EditDocument ''/w/a.ts'' (Insert \<lparr>line = 0, character = 0\<rparr> ''let y = 2''),
      CloseActiveEditor,
      ShowInformationMessage ''Changes applied successfully.'',
      ShowWarningMessage ''Change not found or expired.'' []]"
    by simp_all
  with 1 2 t show ?thesis by blast
qed

text \<open>
  \<open>rejectChange\<close> has no handler around its call to the host: with an id that is
  pending, what the command that closes the editor throws is thrown by \<open>rejectChange\<close>.
\<close>

lemma rejectChange_live_throws:
  assumes "pendingChanges s cid = Some change"
    and "fst (closeActiveEditor h (world s)) = Inl e"
  shows "fst (rejectChange h cid s) = Inl e"
  using assms
  by (cases "closeActiveEditor h (world s)")
     (auto simp: rejectChange_def andThen_def reads_def hostCall_def)

text \<open>
  Claim C4 at an input where the code departs from it. A change is pending and the command
  that closes the active editor fails. \<open>rejectChange\<close> raises the failure of the
  command; \<open>acceptChange\<close>, in the same state and with the same host, catches it and
  returns \<open>False\<close>.
\<close>

theorem rejectChange_throws_when_close_fails:
  "pendingChanges previewedState ''change-0'' \<noteq> None \<and>
   fst (rejectChange closeFailingHost ''change-0'' previewedState) = Inl (HostError ''close failed'') \<and>
   fst (acceptChange closeFailingHost ''change-0'' previewedState) = Inr False"
  by code_simp

section \<open>Two calls of acceptChange at once\<close>

lemma accept_split:
  "acceptChange h cid =
     andThen (acceptUntilEdit h cid) (\<lambda>progress.
     case progress of
       Finished b \<Rightarrow> ret b
     | EditAwaited ok \<Rightarrow> acceptAfterEdit h cid ok)"
proof
  fix s
  show "acceptChange h cid s =
     andThen (acceptUntilEdit h cid) (\<lambda>progress.
     case progress of
       Finished b \<Rightarrow> ret b
     | EditAwaited ok \<Rightarrow> acceptAfterEdit h cid ok) s"
  proof (cases "pendingChanges s cid")
    case None
    then show ?thesis
      by (simp add: acceptChange_def acceptUntilEdit_def andThen_def reads_def unawaited_def
            ret_def split: prod.splits)
  next
    case (Some change)
    then show ?thesis
      by (simp add: acceptChange_def acceptUntilEdit_def acceptAfterEdit_def andThen_def
            reads_def unawaited_def ret_def tryCatch_def
            split: prod.splits sum.splits)
  qed
qed

text \<open>
  Claim C8 at an input where the code departs from it. Two calls of \<open>acceptChange\<close> with
  the id of one pending change, the second started while the first awaits its edit: each
  call runs up to its request of the edit, then each call runs on from the outcome. The
  change is deleted only in the second part, so both calls find it; the host is asked for
  two edits, and both calls return \<open>True\<close>.
\<close>

theorem concurrent_accept_both_apply:
  "(let s0 = previewedState;
        step1 = acceptUntilEdit recordingHost ''change-0'' s0;
        step2 = acceptUntilEdit recordingHost ''change-0'' (snd step1);
        step3 = acceptAfterEdit recordingHost ''change-0'' True (snd step2);
        step4 = acceptAfterEdit recordingHost ''change-0'' True (snd step3)
    in fst step1 = Inr (EditAwaited True) \<and>
       fst step2 = Inr (EditAwaited True) \<and>
       fst step3 = Inr True \<and>
       fst step4 = Inr True \<and>
       calls (world (snd step4)) =
         [RandomUUID,
          Diff ''/w/a.ts'' ''mistral-preview:a.ts?change-0'' ''Preview Changes: a.ts'',
          EditDocument ''/w/a.ts'' (Insert \<lparr>line = 0, character = 0\<rparr> ''let y = 2''),
          EditDocument ''/w/a.ts'' (Insert \<lparr>line = 0, character = 0\<rparr> ''let y = 2''),
          CloseActiveEditor,
          ShowInformationMessage ''Changes applied successfully.'',
          CloseActiveEditor,
          ShowInformationMessage ''Changes applied successfully.''])"
  by code_simp

section \<open>Preview or direct edit\<close>

text \<open>
  Claim C2 at an input where the code departs from it. The preview mode is
  \<open>edits_only\<close>. The payload is labelled \<open>Create\<close> by its sender; the detector
  classifies its code as an edit with confidence 0.7, so the payload is routed as \<open>Edit\<close>
  to \<open>handleEdit\<close>. There the decision to preview reads the intent field of the payload,
  which still says \<open>Create\<close>: the code is inserted into the document directly, and no
  preview is shown.
\<close>

theorem detected_edit_applied_directly:
  "previewMode (getConfiguration recordingHost (world (exampleState ''let x = 0''))) = edits_only \<and>
   fst (adoptDetected (detect (code snippetPayload) (language snippetPayload) (Some ''/w/a.ts''))
          snippetPayload) = Edit \<and>
   fst (applySingle recordingHost snippetPayload (exampleState ''let x = 0'')) =
     Inr \<lparr>ApplyResult.success = True, action = edited, message = Some ''Code applied'',
          changeId = None\<rparr> \<and>
   calls (world (snd (applySingle recordingHost snippetPayload (exampleState ''let x = 0'')))) =
     [EditDocument ''/w/a.ts'' (Insert \<lparr>line = 0, character = 4\<rparr> ''let x = 1'')]"
  by code_simp

section \<open>The file header that is stripped\<close>

text \<open>
  Claim C7 at inputs where the code departs from it. A first line that is a path in a
  triple-quoted comment makes the classifier return \<open>Create\<close> with the path as target,
  and \<open>cleanCodeForFile\<close> returns the code with that line still in it: its list of
  patterns has no triple-quote pattern. A path comment after a leading line break is seen
  by the classifier, which trims the code first, and not by \<open>cleanCodeForFile\<close>, which
  does not. A path comment in the \<^verbatim>\<open>//\<close> style on the first line is seen by both.
\<close>

theorem docstring_header_not_stripped:
  "detectFileCreation ([CHR 0x22, CHR 0x22, CHR 0x22] @ '' app.py '' @
                       [CHR 0x22, CHR 0x22, CHR 0x22] @ [NL] @ ''print(1)'') ''python'' =
     createWith 0.95 (Some ''app.py'') \<and>
   cleanCodeForFile ([CHR 0x22, CHR 0x22, CHR 0x22] @ '' app.py '' @
                     [CHR 0x22, CHR 0x22, CHR 0x22] @ [NL] @ ''print(1)'') =
     [CHR 0x22, CHR 0x22, CHR 0x22] @ '' app.py '' @
     [CHR 0x22, CHR 0x22, CHR 0x22] @ [NL] @ ''print(1)'' \<and>
   detectFileCreation ([NL] @ ''// b.ts'' @ [NL] @ ''x'') ''ts'' = createWith 0.95 (Some ''b.ts'') \<and>
   cleanCodeForFile ([NL] @ ''// b.ts'' @ [NL] @ ''x'') = [NL] @ ''// b.ts'' @ [NL] @ ''x'' \<and>
   detectFileCreation (''// b.ts'' @ [NL] @ ''x'') ''ts'' = createWith 0.95 (Some ''b.ts'') \<and>
   cleanCodeForFile (''// b.ts'' @ [NL] @ ''x'') = ''x''"
  by code_simp

end
